theory Spec2Isabelle
  imports Complex_Main
begin

section \<open>The stagnation callback (class StagnationCallback of core.py)\<close>

text \<open>
  Python floats are modelled as reals. The only non-finite float the callback ever
  stores is \<open>float('inf')\<close>, the initial value of \<open>best_obj\<close>, so a stored bound is
  either that or a finite report.
\<close>

datatype pyfloat = Fin real | PInf

text \<open>\<open>GRB.INFINITY\<close> is the finite float 1e100.\<close>

definition GRB_INFINITY :: real where
  "GRB_INFINITY = 10 ^ 100"

text \<open>
  \<open>abs(current_obj - self.best_obj) > 1e-5\<close>: against \<open>float('inf')\<close> the
  difference is infinite, so the test holds.
\<close>

fun differs :: "real \<Rightarrow> pyfloat \<Rightarrow> bool" where
  "differs r PInf = True"
| "differs r (Fin b) = (\<bar>r - b\<bar> > 1 / 100000)"

record callback_state =
  max_stagnation :: real
  obj_count :: int
  last_improve_time :: real
  best_obj :: pyfloat
  stagnated :: bool

text \<open>
  One invocation \<open>__call__(model, where)\<close>. The event carries what the call reads
  from its environment: \<open>time.time()\<close> and the value of \<open>model.cbGet\<close>. A
  \<open>cbGet\<close> that raises inside the \<open>try\<close> block is \<open>MIP None\<close>; any other
  \<open>where\<close> code is \<open>OTHER\<close>.
\<close>

datatype event =
    MULTIOBJ int real
  | MIP "real option" real
  | OTHER real

text \<open>The only action on the solver: \<open>model.cbStopOneMultiObj(self.obj_count)\<close>.\<close>

datatype action = StopOneMultiObj int

definition StagnationCallback_init :: "real \<Rightarrow> real \<Rightarrow> callback_state" where
  "StagnationCallback_init max_stagnation_seconds now =
     \<lparr>max_stagnation = max_stagnation_seconds, obj_count = 0,
      last_improve_time = now, best_obj = PInf, stagnated = False\<rparr>"

fun call :: "callback_state \<Rightarrow> event \<Rightarrow> callback_state \<times> action list" where
  "call st (MULTIOBJ cnt now) =
     (st\<lparr>obj_count := cnt, best_obj := PInf, last_improve_time := now, stagnated := False\<rparr>, [])"
| "call st (MIP None now) = (st, [])"
| "call st (MIP (Some current_obj) now) =
     (if current_obj < GRB_INFINITY then
        if differs current_obj (best_obj st) then
          (st\<lparr>best_obj := Fin current_obj, last_improve_time := now\<rparr>, [])
        else if now - last_improve_time st > max_stagnation st \<and> \<not> stagnated st then
          (st\<lparr>stagnated := True\<rparr>, [StopOneMultiObj (obj_count st)])
        else (st, [])
      else (st, []))"
| "call st (OTHER now) = (st, [])"

text \<open>
  The solver invoking the callback along a sequence of events: the final state and,
  for each event in order, the actions that invocation emitted.
\<close>

fun run :: "callback_state \<Rightarrow> event list \<Rightarrow> callback_state \<times> action list list" where
  "run st [] = (st, [])"
| "run st (e # es) =
     (let (st', out) = call st e; (st'', outs) = run st' es in (st'', out # outs))"

text \<open>Events that open a new priority level.\<close>

fun is_MULTIOBJ :: "event \<Rightarrow> bool" where
  "is_MULTIOBJ (MULTIOBJ cnt now) = True"
| "is_MULTIOBJ e = False"

fun event_time :: "event \<Rightarrow> real" where
  "event_time (MULTIOBJ cnt now) = now"
| "event_time (MIP r now) = now"
| "event_time (OTHER now) = now"

text \<open>
  The invocations that restart the stagnation clock: the start of a level, and a report
  below \<open>GRB.INFINITY\<close> that differs from the stored best by more than 1e-5.
\<close>

fun resets_clock :: "callback_state \<Rightarrow> event \<Rightarrow> bool" where
  "resets_clock st (MULTIOBJ cnt now) = True"
| "resets_clock st (MIP (Some r) now) = (r < GRB_INFINITY \<and> differs r (best_obj st))"
| "resets_clock st e = False"

section \<open>Python helpers used by CNAlign\<close>

datatype error =
    OSError
  | IndexError
  | ValueError
  | ZeroDivisionError
  | AttributeError
  | KeyError string string
  | NonUniqueKey string string

text \<open>An operation that returns rather than raises.\<close>

definition succeeds :: "'e + 'a \<Rightarrow> bool" where
  "succeeds r = (case r of Inl e \<Rightarrow> False | Inr x \<Rightarrow> True)"

text \<open>\<open>xs[i]\<close> for a non-negative index: out of range raises IndexError.\<close>

definition py_index :: "'a list \<Rightarrow> nat \<Rightarrow> error + 'a" where
  "py_index xs i = (if i < length xs then Inr (xs ! i) else Inl IndexError)"

text \<open>
  A character of a licence line is a code point below 256; the file is taken to hold no
  others. Among these the whitespace that \<open>str.rstrip()\<close> and \<open>int()\<close> strip is 9 to 13,
  28 to 32, U+0085 and U+00A0, and the decimal digits that \<open>int()\<close> reads are 0 to 9.
\<close>

definition is_space :: "char \<Rightarrow> bool" where
  "is_space c =
     ((9 \<le> (of_char c :: nat) \<and> (of_char c :: nat) \<le> 13) \<or>
      (28 \<le> (of_char c :: nat) \<and> (of_char c :: nat) \<le> 32) \<or>
      (of_char c :: nat) = 133 \<or> (of_char c :: nat) = 160)"

definition rstrip :: "string \<Rightarrow> string" where
  "rstrip l = rev (dropWhile is_space (rev l))"

definition strip :: "string \<Rightarrow> string" where
  "strip l = dropWhile is_space (rstrip l)"

text \<open>\<open>line.split('=')\<close>: the pieces between the separators, at least one piece.\<close>

fun split_on :: "char \<Rightarrow> string \<Rightarrow> string list" where
  "split_on c [] = [[]]"
| "split_on c (x # xs) =
     (if x = c then [] # split_on c xs
      else (case split_on c xs of
              [] \<Rightarrow> [[x]]
            | y # ys \<Rightarrow> (x # y) # ys))"

definition is_digit :: "char \<Rightarrow> bool" where
  "is_digit c = (48 \<le> (of_char c :: nat) \<and> (of_char c :: nat) \<le> 57)"

text \<open>
  The digits of a decimal literal as \<open>int()\<close> accepts them: at least one digit, single
  underscores allowed between digits only.
\<close>

fun parse_digits :: "nat \<Rightarrow> string \<Rightarrow> nat option" where
  "parse_digits acc [] = None"
| "parse_digits acc (c # cs) =
     (if is_digit c then
        (case cs of
           [] \<Rightarrow> Some (10 * acc + ((of_char c :: nat) - 48))
         | d # ds \<Rightarrow>
             if d = CHR ''_'' then parse_digits (10 * acc + ((of_char c :: nat) - 48)) ds
             else parse_digits (10 * acc + ((of_char c :: nat) - 48)) cs)
      else None)"

text \<open>\<open>int(text)\<close> on a string: ValueError unless it is a signed decimal literal.\<close>

definition py_int :: "string \<Rightarrow> error + int" where
  "py_int text =
     (case strip text of
        [] \<Rightarrow> Inl ValueError
      | c # cs \<Rightarrow>
          if c = CHR ''-'' then
            (case parse_digits 0 cs of None \<Rightarrow> Inl ValueError | Some n \<Rightarrow> Inr (- int n))
          else if c = CHR ''+'' then
            (case parse_digits 0 cs of None \<Rightarrow> Inl ValueError | Some n \<Rightarrow> Inr (int n))
          else
            (case parse_digits 0 (c # cs) of None \<Rightarrow> Inl ValueError | Some n \<Rightarrow> Inr (int n)))"

text \<open>\<open>lines[k].split('=')[1]\<close>\<close>

definition license_field :: "string list \<Rightarrow> nat \<Rightarrow> error + string" where
  "license_field lines k =
     (case py_index lines k of
        Inl e \<Rightarrow> Inl e
      | Inr l \<Rightarrow> py_index (split_on CHR ''='' l) 1)"

record wls_params =
  WLSACCESSID :: string
  WLSSECRET :: string
  LICENSEID :: int

text \<open>
  Lines 36 to 43 of core.py: the licence file is opened (\<open>None\<close>: it cannot be), its lines
  are right-stripped, and the three fields are read from lines 3, 4 and 5 in this order.
\<close>

definition read_license :: "string list option \<Rightarrow> error + wls_params" where
  "read_license file =
     (case file of
        None \<Rightarrow> Inl OSError
      | Some raw \<Rightarrow>
          (let lines = map rstrip raw in
           case license_field lines 3 of
             Inl e \<Rightarrow> Inl e
           | Inr accessid \<Rightarrow>
               (case license_field lines 4 of
                  Inl e \<Rightarrow> Inl e
                | Inr secret \<Rightarrow>
                    (case license_field lines 5 of
                       Inl e \<Rightarrow> Inl e
                     | Inr idtext \<Rightarrow>
                         (case py_int idtext of
                            Inl e \<Rightarrow> Inl e
                          | Inr n \<Rightarrow>
                              Inr \<lparr>WLSACCESSID = accessid, WLSSECRET = secret,
                                   LICENSEID = n\<rparr>)))))"

text \<open>\<open>Series.unique()\<close>: the distinct values in order of first appearance.\<close>

definition unique :: "'a list \<Rightarrow> 'a list" where
  "unique xs = rev (remdups (rev xs))"

section \<open>The input table\<close>

text \<open>
  One row of the data frame \<open>dat\<close>. The BAF column is a float that may be NaN on input
  (\<open>None\<close>) and is a plain number after the recoding of line 92, hence the type parameter.
  Sample and segment identifiers are held by their printed form.
\<close>

record 'b row =
  sample :: string
  segment :: string
  logR :: real
  BAF :: 'b
  GC :: real
  mb :: real

text \<open>\<open>dat.loc[np.isnan(dat['BAF']),'BAF'] = -9\<close>\<close>

definition recode_BAF :: "real option row \<Rightarrow> real row" where
  "recode_BAF rw =
     \<lparr>sample = sample rw, segment = segment rw, logR = logR rw,
      BAF = (case BAF rw of None \<Rightarrow> - 9 | Some b \<Rightarrow> b), GC = GC rw, mb = mb rw\<rparr>"

text \<open>
  \<open>dat.loc[t,s]\<close> on the (sample, segment) index: KeyError when no row has the key. With
  several rows under one key pandas hands back a frame instead of a row, on which the
  scalar code of the cell fails at its first solver call; that failure is reported here.
\<close>

definition dat_loc :: "'b row list \<Rightarrow> string \<Rightarrow> string \<Rightarrow> error + 'b row" where
  "dat_loc dat t s =
     (case filter (\<lambda>rw. sample rw = t \<and> segment rw = s) dat of
        [] \<Rightarrow> Inl (KeyError t s)
      | [rw] \<Rightarrow> Inr rw
      | rw # rw' # rws \<Rightarrow> Inl (NonUniqueKey t s))"

section \<open>The solver model as data\<close>

text \<open>
  A gurobipy variable is identified by the name given to \<open>addVar\<close>/\<open>addVars\<close> and its
  index tuple; \<open>VarName\<close> is the string the solver shows for it.
\<close>

datatype var = Var0 string | Var1 string string | Var2 string string string

fun VarName :: "var \<Rightarrow> string" where
  "VarName (Var0 n) = n"
| "VarName (Var1 n i) = n @ ''['' @ i @ '']''"
| "VarName (Var2 n i j) = n @ ''['' @ i @ '','' @ j @ '']''"

datatype vtype = CONTINUOUS | INTEGER | BINARY

record vdecl =
  var_of :: var
  vtype_of :: vtype
  lb :: real
  ub :: "real option"

type_synonym assignment = "var \<Rightarrow> real"

type_synonym linexpr = "assignment \<Rightarrow> real"

datatype sense = LESS_EQUAL | GREATER_EQUAL | EQUAL

text \<open>
  The four kinds of constraint the builder adds: \<open>addConstr(lhs sense rhs)\<close>,
  \<open>addGenConstrIndicator(binvar, binval, lhs, sense, rhs)\<close> (also written
  \<open>(binvar == 1) >> (lhs sense rhs)\<close>), \<open>addGenConstrAnd\<close> and \<open>addGenConstrOr\<close>.
\<close>

datatype constr =
    Constr linexpr sense linexpr
  | GenConstrIndicator var bool linexpr sense real
  | GenConstrAnd var "var list"
  | GenConstrOr var "var list"

record objective =
  obj_expr :: linexpr
  obj_index :: nat
  obj_priority :: int
  obj_weight :: real
  obj_name :: string

datatype model_sense = MINIMIZE | MAXIMIZE

record model =
  PoolSolutions :: int
  vars :: "vdecl list"
  constrs :: "constr list"
  objectives :: "objective list"
  ModelSense :: model_sense

definition new_model :: model where
  "new_model = \<lparr>PoolSolutions = 10, vars = [], constrs = [], objectives = [],
                 ModelSense = MINIMIZE\<rparr>"

text \<open>
  Modelled from the spec: the solver's default lower bound for a variable declared
  without \<open>lb\<close>. gurobipy is not part of the repository; the bound is 0 (and the default
  upper bound is infinite, \<open>None\<close> here).
\<close>

definition default_lb :: real where
  "default_lb = 0"

definition addVar :: "var \<Rightarrow> vtype \<Rightarrow> real option \<Rightarrow> real option \<Rightarrow> vdecl" where
  "addVar x vt l u =
     \<lparr>var_of = x, vtype_of = vt, lb = (case l of None \<Rightarrow> default_lb | Some y \<Rightarrow> y), ub = u\<rparr>"

text \<open>\<open>addVars(indices, ...)\<close> and \<open>addVars(Samples, Segments, ...)\<close>, in index order.\<close>

definition addVars1 ::
  "string list \<Rightarrow> vtype \<Rightarrow> string \<Rightarrow> real option \<Rightarrow> real option \<Rightarrow> vdecl list" where
  "addVars1 idx vt name l u = map (\<lambda>i. addVar (Var1 name i) vt l u) idx"

definition addVars2 ::
  "string list \<Rightarrow> string list \<Rightarrow> vtype \<Rightarrow> string \<Rightarrow> real option \<Rightarrow> real option \<Rightarrow> vdecl list" where
  "addVars2 idx1 idx2 vt name l u =
     map (\<lambda>(i, j). addVar (Var2 name i j) vt l u) (List.product idx1 idx2)"

definition add_vars :: "vdecl list \<Rightarrow> model \<Rightarrow> model" where
  "add_vars ds m = m\<lparr>vars := vars m @ ds\<rparr>"

definition add_constrs :: "constr list \<Rightarrow> model \<Rightarrow> model" where
  "add_constrs cs m = m\<lparr>constrs := constrs m @ cs\<rparr>"

text \<open>
  \<open>setObjectiveN(expr, index, priority, weight, name)\<close> sets objective number
  \<open>index\<close>: an objective set earlier under the same index is replaced.
\<close>

definition setObjectiveN :: "linexpr \<Rightarrow> nat \<Rightarrow> int \<Rightarrow> real \<Rightarrow> string \<Rightarrow> model \<Rightarrow> model" where
  "setObjectiveN e i p w n m =
     m\<lparr>objectives := filter (\<lambda>ob. obj_index ob \<noteq> i) (objectives m) @
         [\<lparr>obj_expr = e, obj_index = i, obj_priority = p, obj_weight = w, obj_name = n\<rparr>]\<rparr>"

subsection \<open>What a model demands of an assignment\<close>

text \<open>
  Modelled from the spec: the engine contract of section 6. Bounds and variable types
  hold; a linear constraint holds as written; an indicator constraint demands its
  linear condition when the binary has the stated value and nothing otherwise; an AND
  (OR) constraint makes its result 1 exactly when all (some) operands are 1.
\<close>

fun cmp :: "sense \<Rightarrow> real \<Rightarrow> real \<Rightarrow> bool" where
  "cmp LESS_EQUAL x y = (x \<le> y)"
| "cmp GREATER_EQUAL x y = (x \<ge> y)"
| "cmp EQUAL x y = (x = y)"

definition is_integral :: "real \<Rightarrow> bool" where
  "is_integral x = (of_int \<lfloor>x\<rfloor> = x)"

definition sat_var :: "assignment \<Rightarrow> vdecl \<Rightarrow> bool" where
  "sat_var a d =
     (lb d \<le> a (var_of d) \<and>
      (case ub d of None \<Rightarrow> True | Some u \<Rightarrow> a (var_of d) \<le> u) \<and>
      (case vtype_of d of
         CONTINUOUS \<Rightarrow> True
       | INTEGER \<Rightarrow> is_integral (a (var_of d))
       | BINARY \<Rightarrow> a (var_of d) = 0 \<or> a (var_of d) = 1))"

fun sat_constr :: "assignment \<Rightarrow> constr \<Rightarrow> bool" where
  "sat_constr a (Constr l sn r) = cmp sn (l a) (r a)"
| "sat_constr a (GenConstrIndicator b v l sn r) =
     (if a b = (if v then 1 else 0) then cmp sn (l a) r else True)"
| "sat_constr a (GenConstrAnd r xs) = (a r = (if list_all (\<lambda>x. a x = 1) xs then 1 else 0))"
| "sat_constr a (GenConstrOr r xs) = (a r = (if list_ex (\<lambda>x. a x = 1) xs then 1 else 0))"

definition sat :: "model \<Rightarrow> assignment \<Rightarrow> bool" where
  "sat m a = (list_all (sat_var a) (vars m) \<and> list_all (sat_constr a) (constrs m))"

section \<open>CNAlign: building the model (core.py, lines 82 to 341)\<close>

record config =
  min_ploidy :: real
  max_ploidy :: real
  min_purity :: real
  max_purity :: real
  min_aligned_seg_mb :: real
  max_homdel_mb :: real
  delta_tcn_to_int :: real
  delta_tcn_to_avg :: real
  delta_tcnavg_to_int :: real
  delta_mcn_to_int :: real
  delta_mcn_to_avg :: real
  delta_mcnavg_to_int :: real
  mcn_weight :: real
  rho :: real
  timeout :: real
  min_cna_segments_per_sample :: real
  obj2_clonalonly :: bool
  sol_count :: int

subsection \<open>The Python variables holding the solver variables\<close>

abbreviation n1 :: "string \<Rightarrow> string \<Rightarrow> var" where
  "n1 t s \<equiv> Var2 ''n1'' t s"

abbreviation tcn :: "string \<Rightarrow> string \<Rightarrow> var" where
  "tcn t s \<equiv> Var2 ''tcn'' t s"

abbreviation tcn_avg :: "string \<Rightarrow> string \<Rightarrow> var" where
  "tcn_avg t s \<equiv> Var2 ''tcn_avg'' t s"

abbreviation tcn_int :: "string \<Rightarrow> string \<Rightarrow> var" where
  "tcn_int t s \<equiv> Var2 ''tcn_int'' t s"

abbreviation tcn_int_err :: "string \<Rightarrow> string \<Rightarrow> var" where
  "tcn_int_err t s \<equiv> Var2 ''tcn_int_err'' t s"

abbreviation tcn_spread :: "string \<Rightarrow> string \<Rightarrow> var" where
  "tcn_spread t s \<equiv> Var2 ''tcn_spread'' t s"

abbreviation tcn_avg_int :: "string \<Rightarrow> string \<Rightarrow> var" where
  "tcn_avg_int t s \<equiv> Var2 ''tcn_avg_int'' t s"

abbreviation tcn_avg_int_err :: "string \<Rightarrow> string \<Rightarrow> var" where
  "tcn_avg_int_err t s \<equiv> Var2 ''tcn_avg_int_err'' t s"

abbreviation tcn_close_to_int :: "string \<Rightarrow> string \<Rightarrow> var" where
  "tcn_close_to_int t s \<equiv> Var2 ''tcn_close_to_int'' t s"

abbreviation tcn_close_to_avg :: "string \<Rightarrow> string \<Rightarrow> var" where
  "tcn_close_to_avg t s \<equiv> Var2 ''tcn_close_to_avg'' t s"

abbreviation tcn_avg_close_to_int :: "string \<Rightarrow> string \<Rightarrow> var" where
  "tcn_avg_close_to_int t s \<equiv> Var2 ''tcn_avg_close_to_int'' t s"

abbreviation tcn_match :: "string \<Rightarrow> string \<Rightarrow> var" where
  "tcn_match t s \<equiv> Var2 ''tcn_match'' t s"

abbreviation tcn_match_and_avg_at_int :: "string \<Rightarrow> string \<Rightarrow> var" where
  "tcn_match_and_avg_at_int t s \<equiv> Var2 ''tcn_match_and_avg_at_int'' t s"

abbreviation tcn_gain :: "string \<Rightarrow> string \<Rightarrow> var" where
  "tcn_gain t s \<equiv> Var2 ''tcn_gain'' t s"

abbreviation tcn_loss :: "string \<Rightarrow> string \<Rightarrow> var" where
  "tcn_loss t s \<equiv> Var2 ''tcn_loss'' t s"

abbreviation tcn_cna :: "string \<Rightarrow> string \<Rightarrow> var" where
  "tcn_cna t s \<equiv> Var2 ''tcn_cna'' t s"

abbreviation mcn :: "string \<Rightarrow> string \<Rightarrow> var" where
  "mcn t s \<equiv> Var2 ''mcn'' t s"

abbreviation mcn_avg :: "string \<Rightarrow> string \<Rightarrow> var" where
  "mcn_avg t s \<equiv> Var2 ''mcn_avg'' t s"

abbreviation mcn_int :: "string \<Rightarrow> string \<Rightarrow> var" where
  "mcn_int t s \<equiv> Var2 ''mcn_int'' t s"

abbreviation mcn_int_err :: "string \<Rightarrow> string \<Rightarrow> var" where
  "mcn_int_err t s \<equiv> Var2 ''mcn_int_err'' t s"

abbreviation mcn_spread :: "string \<Rightarrow> string \<Rightarrow> var" where
  "mcn_spread t s \<equiv> Var2 ''mcn_spread'' t s"

abbreviation mcn_avg_int :: "string \<Rightarrow> string \<Rightarrow> var" where
  "mcn_avg_int t s \<equiv> Var2 ''mcn_avg_int'' t s"

abbreviation mcn_avg_int_err :: "string \<Rightarrow> string \<Rightarrow> var" where
  "mcn_avg_int_err t s \<equiv> Var2 ''mcn_avg_int_err'' t s"

abbreviation mcn_close_to_int :: "string \<Rightarrow> string \<Rightarrow> var" where
  "mcn_close_to_int t s \<equiv> Var2 ''mcn_close_to_int'' t s"

abbreviation mcn_close_to_avg :: "string \<Rightarrow> string \<Rightarrow> var" where
  "mcn_close_to_avg t s \<equiv> Var2 ''mcn_close_to_avg'' t s"

abbreviation mcn_avg_close_to_int :: "string \<Rightarrow> string \<Rightarrow> var" where
  "mcn_avg_close_to_int t s \<equiv> Var2 ''mcn_avg_close_to_int'' t s"

abbreviation mcn_match :: "string \<Rightarrow> string \<Rightarrow> var" where
  "mcn_match t s \<equiv> Var2 ''mcn_match'' t s"

abbreviation mcn_match_and_avg_at_int :: "string \<Rightarrow> string \<Rightarrow> var" where
  "mcn_match_and_avg_at_int t s \<equiv> Var2 ''mcn_match_and_avg_at_int'' t s"

abbreviation mcn_gain :: "string \<Rightarrow> string \<Rightarrow> var" where
  "mcn_gain t s \<equiv> Var2 ''mcn_gain'' t s"

abbreviation mcn_loss :: "string \<Rightarrow> string \<Rightarrow> var" where
  "mcn_loss t s \<equiv> Var2 ''mcn_loss'' t s"

abbreviation mcn_cna :: "string \<Rightarrow> string \<Rightarrow> var" where
  "mcn_cna t s \<equiv> Var2 ''mcn_cna'' t s"

abbreviation match_both :: "string \<Rightarrow> string \<Rightarrow> var" where
  "match_both t s \<equiv> Var2 ''match_both'' t s"

abbreviation match_both_and_large_enough :: "string \<Rightarrow> string \<Rightarrow> var" where
  "match_both_and_large_enough t s \<equiv> Var2 ''match_both_and_large_enough'' t s"

abbreviation match_both_and_large_enough_and_cna :: "string \<Rightarrow> string \<Rightarrow> var" where
  "match_both_and_large_enough_and_cna t s \<equiv> Var2 ''match_both_and_large_enough_and_cna'' t s"

abbreviation is_homdel :: "string \<Rightarrow> string \<Rightarrow> var" where
  "is_homdel t s \<equiv> Var2 ''is_homdel'' t s"

abbreviation is_cna :: "string \<Rightarrow> string \<Rightarrow> var" where
  "is_cna t s \<equiv> Var2 ''is_cna'' t s"

abbreviation large_enough :: "string \<Rightarrow> string \<Rightarrow> var" where
  "large_enough t s \<equiv> Var2 ''large_enough'' t s"

abbreviation tcn_int_err_term :: "string \<Rightarrow> string \<Rightarrow> var" where
  "tcn_int_err_term t s \<equiv> Var2 ''tcn_int_err_term'' t s"

abbreviation mcn_int_err_term :: "string \<Rightarrow> string \<Rightarrow> var" where
  "mcn_int_err_term t s \<equiv> Var2 ''mcn_int_err_term'' t s"

abbreviation allmatch :: "string \<Rightarrow> var" where
  "allmatch i \<equiv> Var1 ''allmatch'' i"

abbreviation pl :: "string \<Rightarrow> var" where
  "pl i \<equiv> Var1 ''pl'' i"

abbreviation z :: "string \<Rightarrow> var" where
  "z i \<equiv> Var1 ''z'' i"

abbreviation homdel_mb :: "string \<Rightarrow> var" where
  "homdel_mb i \<equiv> Var1 ''homdel_mb'' i"

abbreviation n_cna_segments_per_sample :: "string \<Rightarrow> var" where
  "n_cna_segments_per_sample i \<equiv> Var1 ''n_cna_segments_per_sample'' i"

abbreviation tcn_error_clonal :: var where
  "tcn_error_clonal \<equiv> Var0 ''tcn_error_clonal''"

abbreviation mcn_error_clonal :: var where
  "mcn_error_clonal \<equiv> Var0 ''mcn_error_clonal''"

abbreviation avg_ploidy :: var where
  "avg_ploidy \<equiv> Var0 ''avg_ploidy''"

abbreviation n_clonal :: var where
  "n_clonal \<equiv> Var0 ''n_clonal''"

subsection \<open>Variable declarations, lines 117 to 179\<close>

definition tcn_vars :: "string list \<Rightarrow> string list \<Rightarrow> vdecl list" where
  "tcn_vars Samples Segments =
     addVars2 Samples Segments CONTINUOUS ''n1'' None None @
     addVars2 Samples Segments CONTINUOUS ''tcn'' None None @
     addVars2 Samples Segments CONTINUOUS ''tcn_avg'' None None @
     addVars2 Samples Segments INTEGER ''tcn_int'' None None @
     addVars2 Samples Segments CONTINUOUS ''tcn_int_err'' (Some 0) None @
     addVars2 Samples Segments CONTINUOUS ''tcn_spread'' (Some 0) None @
     addVars2 Samples Segments INTEGER ''tcn_avg_int'' (Some 0) None @
     addVars2 Samples Segments CONTINUOUS ''tcn_avg_int_err'' (Some 0) None @
     addVars2 Samples Segments BINARY ''tcn_close_to_int'' None None @
     addVars2 Samples Segments BINARY ''tcn_close_to_avg'' None None @
     addVars2 Samples Segments BINARY ''tcn_avg_close_to_int'' None None @
     addVars2 Samples Segments BINARY ''tcn_match'' None None @
     addVars2 Samples Segments BINARY ''tcn_match_and_avg_at_int'' None None @
     addVars2 Samples Segments BINARY ''tcn_gain'' None None @
     addVars2 Samples Segments BINARY ''tcn_loss'' None None @
     addVars2 Samples Segments BINARY ''tcn_cna'' None None @
     [addVar tcn_error_clonal CONTINUOUS (Some 0) None]"

definition mcn_vars :: "string list \<Rightarrow> string list \<Rightarrow> vdecl list" where
  "mcn_vars Samples Segments =
     addVars2 Samples Segments CONTINUOUS ''mcn'' None None @
     addVars2 Samples Segments CONTINUOUS ''mcn_avg'' None None @
     addVars2 Samples Segments INTEGER ''mcn_int'' None None @
     addVars2 Samples Segments CONTINUOUS ''mcn_int_err'' (Some 0) None @
     addVars2 Samples Segments CONTINUOUS ''mcn_spread'' (Some 0) None @
     addVars2 Samples Segments INTEGER ''mcn_avg_int'' (Some 0) None @
     addVars2 Samples Segments CONTINUOUS ''mcn_avg_int_err'' (Some 0) None @
     addVars2 Samples Segments BINARY ''mcn_close_to_int'' None None @
     addVars2 Samples Segments BINARY ''mcn_close_to_avg'' None None @
     addVars2 Samples Segments BINARY ''mcn_avg_close_to_int'' None None @
     addVars2 Samples Segments BINARY ''mcn_match'' None None @
     addVars2 Samples Segments BINARY ''mcn_match_and_avg_at_int'' None None @
     addVars2 Samples Segments BINARY ''mcn_gain'' None None @
     addVars2 Samples Segments BINARY ''mcn_loss'' None None @
     addVars2 Samples Segments BINARY ''mcn_cna'' None None @
     [addVar mcn_error_clonal CONTINUOUS (Some 0) None]"

definition combined_vars :: "string list \<Rightarrow> string list \<Rightarrow> vdecl list" where
  "combined_vars Samples Segments =
     addVars2 Samples Segments BINARY ''match_both'' None None @
     addVars2 Samples Segments BINARY ''match_both_and_large_enough'' None None @
     addVars2 Samples Segments BINARY ''match_both_and_large_enough_and_cna'' None None @
     addVars2 Samples Segments BINARY ''is_homdel'' None None @
     addVars2 Samples Segments BINARY ''is_cna'' None None @
     addVars2 Samples Segments BINARY ''large_enough'' None None @
     addVars1 Segments BINARY ''allmatch'' None None"

definition pl_vars :: "config \<Rightarrow> string list \<Rightarrow> vdecl list" where
  "pl_vars cfg Samples =
     addVars1 Samples CONTINUOUS ''pl'' (Some (min_ploidy cfg)) (Some (max_ploidy cfg))"

definition z_vars :: "config \<Rightarrow> string list \<Rightarrow> vdecl list" where
  "z_vars cfg Samples =
     addVars1 Samples CONTINUOUS ''z'' (Some (1 / max_purity cfg)) (Some (1 / min_purity cfg))"

definition sample_vars :: "config \<Rightarrow> string list \<Rightarrow> string list \<Rightarrow> vdecl list" where
  "sample_vars cfg Samples Segments =
     addVars1 Samples CONTINUOUS ''homdel_mb'' (Some 0) (Some (max_homdel_mb cfg)) @
     addVars1 Samples INTEGER ''n_cna_segments_per_sample''
       (Some (min_cna_segments_per_sample cfg)) (Some (real (length Segments))) @
     [addVar avg_ploidy CONTINUOUS (Some (min_ploidy cfg)) (Some (max_ploidy cfg))]"

definition n_clonal_var :: "string list \<Rightarrow> vdecl" where
  "n_clonal_var Segments = addVar n_clonal INTEGER (Some 0) (Some (real (length Segments)))"

subsection \<open>Constraints of one (sample, segment) cell, lines 186 to 295\<close>

text \<open>Lines 196 to 209: the signal algebra, with \<open>c = 2**r\<close> and \<open>c1 = 2**(r+1)\<close>.\<close>

definition signal_constrs :: "string \<Rightarrow> string \<Rightarrow> real row \<Rightarrow> constr list" where
  "signal_constrs t s rw =
     (let r = logR rw; b = BAF rw; g = GC rw; c = 2 powr r; c1 = 2 powr (r + 1) in
      (if b \<noteq> - 9 then
         [Constr (\<lambda>a. a (n1 t s)) EQUAL
            (\<lambda>a. - b * c * a (pl t) + b * c1 - b * c1 * a (z t) + c * a (pl t) - c1
                  + c1 * a (z t) + g - g * a (z t) - 1 + a (z t)),
          Constr (\<lambda>a. a (mcn t s)) EQUAL
            (\<lambda>a. b * c * a (pl t) - b * c1 + b * c1 * a (z t) + 1 - a (z t))]
       else
         [Constr (\<lambda>a. a (n1 t s)) EQUAL
            (\<lambda>a. a (z t) * c * 2 + c * a (pl t) - 2 * c - g * a (z t) + g),
          Constr (\<lambda>a. a (mcn t s)) EQUAL (\<lambda>a. 0)]) @
      [Constr (\<lambda>a. a (tcn t s)) EQUAL (\<lambda>a. a (n1 t s) + a (mcn t s))])"

definition tcn_wt_copies_of :: "real row \<Rightarrow> real" where
  "tcn_wt_copies_of rw = GC rw"

definition mcn_wt_copies_of :: "real row \<Rightarrow> real" where
  "mcn_wt_copies_of rw = (if BAF rw \<noteq> - 9 then GC rw - 1 else 0)"

definition tcn_constrs ::
  "config \<Rightarrow> string list \<Rightarrow> string \<Rightarrow> string \<Rightarrow> real \<Rightarrow> constr list" where
  "tcn_constrs cfg Samples t s tcn_wt_copies =
     [Constr (\<lambda>a. a (tcn_int t s)) LESS_EQUAL (\<lambda>a. a (tcn t s) + 1 / 2),
      Constr (\<lambda>a. a (tcn_int t s)) GREATER_EQUAL (\<lambda>a. a (tcn t s) - 1 / 2),
      Constr (\<lambda>a. a (tcn_int_err t s)) GREATER_EQUAL (\<lambda>a. a (tcn_int t s) - a (tcn t s)),
      Constr (\<lambda>a. a (tcn_int_err t s)) GREATER_EQUAL (\<lambda>a. - a (tcn_int t s) + a (tcn t s)),
      GenConstrIndicator (tcn_close_to_int t s) True (\<lambda>a. a (tcn_int_err t s)) LESS_EQUAL
        (delta_tcn_to_int cfg),
      Constr (\<lambda>a. a (tcn_avg t s)) EQUAL
        (\<lambda>a. (\<Sum>t'\<leftarrow>Samples. a (tcn t' s)) / real (length Samples)),
      Constr (\<lambda>a. a (tcn_spread t s)) GREATER_EQUAL (\<lambda>a. a (tcn_avg t s) - a (tcn t s)),
      Constr (\<lambda>a. a (tcn_spread t s)) GREATER_EQUAL (\<lambda>a. - a (tcn_avg t s) + a (tcn t s)),
      GenConstrIndicator (tcn_close_to_avg t s) True (\<lambda>a. a (tcn_spread t s)) LESS_EQUAL
        (delta_tcn_to_avg cfg),
      Constr (\<lambda>a. a (tcn_avg_int t s)) LESS_EQUAL (\<lambda>a. a (tcn_avg t s) + 1 / 2),
      Constr (\<lambda>a. a (tcn_avg_int t s)) GREATER_EQUAL (\<lambda>a. a (tcn_avg t s) - 1 / 2),
      Constr (\<lambda>a. a (tcn_avg_int_err t s)) GREATER_EQUAL
        (\<lambda>a. a (tcn_avg t s) - a (tcn_avg_int t s)),
      Constr (\<lambda>a. a (tcn_avg_int_err t s)) GREATER_EQUAL
        (\<lambda>a. - a (tcn_avg t s) + a (tcn_avg_int t s)),
      GenConstrIndicator (tcn_avg_close_to_int t s) True (\<lambda>a. a (tcn_avg_int_err t s)) LESS_EQUAL
        (delta_tcnavg_to_int cfg),
      GenConstrAnd (tcn_match t s) [tcn_close_to_int t s, tcn_close_to_avg t s],
      GenConstrAnd (tcn_match_and_avg_at_int t s) [tcn_match t s, tcn_avg_close_to_int t s],
      GenConstrIndicator (tcn_gain t s) True (\<lambda>a. a (tcn_int t s)) GREATER_EQUAL
        (tcn_wt_copies + 1),
      GenConstrIndicator (tcn_loss t s) True (\<lambda>a. a (tcn_int t s)) LESS_EQUAL
        (tcn_wt_copies - 1),
      GenConstrOr (tcn_cna t s) [tcn_gain t s, tcn_loss t s]]"

definition mcn_constrs ::
  "config \<Rightarrow> string list \<Rightarrow> string \<Rightarrow> string \<Rightarrow> real \<Rightarrow> constr list" where
  "mcn_constrs cfg Samples t s mcn_wt_copies =
     [Constr (\<lambda>a. a (mcn_int t s)) LESS_EQUAL (\<lambda>a. a (mcn t s) + 1 / 2),
      Constr (\<lambda>a. a (mcn_int t s)) GREATER_EQUAL (\<lambda>a. a (mcn t s) - 1 / 2),
      Constr (\<lambda>a. a (mcn_int_err t s)) GREATER_EQUAL (\<lambda>a. a (mcn_int t s) - a (mcn t s)),
      Constr (\<lambda>a. a (mcn_int_err t s)) GREATER_EQUAL (\<lambda>a. - a (mcn_int t s) + a (mcn t s)),
      GenConstrIndicator (mcn_close_to_int t s) True (\<lambda>a. a (mcn_int_err t s)) LESS_EQUAL
        (delta_mcn_to_int cfg),
      Constr (\<lambda>a. a (mcn_avg t s)) EQUAL
        (\<lambda>a. (\<Sum>t'\<leftarrow>Samples. a (mcn t' s)) / real (length Samples)),
      Constr (\<lambda>a. a (mcn_spread t s)) GREATER_EQUAL (\<lambda>a. a (mcn_avg t s) - a (mcn t s)),
      Constr (\<lambda>a. a (mcn_spread t s)) GREATER_EQUAL (\<lambda>a. - a (mcn_avg t s) + a (mcn t s)),
      GenConstrIndicator (mcn_close_to_avg t s) True (\<lambda>a. a (mcn_spread t s)) LESS_EQUAL
        (delta_mcn_to_avg cfg),
      Constr (\<lambda>a. a (mcn_avg_int t s)) LESS_EQUAL (\<lambda>a. a (mcn_avg t s) + 1 / 2),
      Constr (\<lambda>a. a (mcn_avg_int t s)) GREATER_EQUAL (\<lambda>a. a (mcn_avg t s) - 1 / 2),
      Constr (\<lambda>a. a (mcn_avg_int_err t s)) GREATER_EQUAL
        (\<lambda>a. a (mcn_avg t s) - a (mcn_avg_int t s)),
      Constr (\<lambda>a. a (mcn_avg_int_err t s)) GREATER_EQUAL
        (\<lambda>a. - a (mcn_avg t s) + a (mcn_avg_int t s)),
      GenConstrIndicator (mcn_avg_close_to_int t s) True (\<lambda>a. a (mcn_avg_int_err t s)) LESS_EQUAL
        (delta_mcnavg_to_int cfg),
      GenConstrAnd (mcn_match t s) [mcn_close_to_int t s, mcn_close_to_avg t s],
      GenConstrAnd (mcn_match_and_avg_at_int t s) [mcn_match t s, mcn_avg_close_to_int t s],
      GenConstrIndicator (mcn_gain t s) True (\<lambda>a. a (mcn_int t s)) GREATER_EQUAL
        (mcn_wt_copies + 1),
      GenConstrIndicator (mcn_loss t s) True (\<lambda>a. a (mcn_int t s)) LESS_EQUAL
        (mcn_wt_copies - 1),
      GenConstrOr (mcn_cna t s) [mcn_gain t s, mcn_loss t s]]"

definition combined_constrs :: "string \<Rightarrow> string \<Rightarrow> constr list" where
  "combined_constrs t s =
     [GenConstrAnd (match_both t s) [tcn_match_and_avg_at_int t s, mcn_match_and_avg_at_int t s],
      GenConstrOr (is_cna t s) [tcn_cna t s, mcn_cna t s],
      GenConstrIndicator (is_homdel t s) True (\<lambda>a. a (tcn t s)) LESS_EQUAL (1 / 2),
      GenConstrAnd (match_both_and_large_enough t s) [match_both t s, large_enough t s],
      GenConstrAnd (match_both_and_large_enough_and_cna t s)
        [match_both_and_large_enough t s, is_cna t s]]"

definition cell_constrs :: "config \<Rightarrow> string list \<Rightarrow> string \<Rightarrow> string \<Rightarrow> real row \<Rightarrow> constr list" where
  "cell_constrs cfg Samples t s rw =
     [GenConstrIndicator (large_enough t s) True (\<lambda>a. mb rw) GREATER_EQUAL
        (min_aligned_seg_mb cfg)] @
     signal_constrs t s rw @
     tcn_constrs cfg Samples t s (tcn_wt_copies_of rw) @
     mcn_constrs cfg Samples t s (mcn_wt_copies_of rw) @
     combined_constrs t s"

text \<open>
  The double loop of lines 183 and 184 over its (segment, sample) pairs. The first thing
  an iteration does is read its row; when that fails the exception leaves the function
  with the model as built so far.
\<close>

fun cell_loop ::
  "real row list \<Rightarrow> config \<Rightarrow> string list \<Rightarrow> (string \<times> string) list \<Rightarrow> model \<Rightarrow>
     (error \<times> model) + model" where
  "cell_loop dat cfg Samples [] m = Inr m"
| "cell_loop dat cfg Samples ((s, t) # rest) m =
     (case dat_loc dat t s of
        Inl e \<Rightarrow> Inl (e, m)
      | Inr rw \<Rightarrow> cell_loop dat cfg Samples rest (add_constrs (cell_constrs cfg Samples t s rw) m))"

subsection \<open>Segment and sample constraints, lines 297 to 303\<close>

definition allmatch_constr :: "config \<Rightarrow> string list \<Rightarrow> string \<Rightarrow> constr" where
  "allmatch_constr cfg Samples s =
     GenConstrIndicator (allmatch s) True
       (\<lambda>a. \<Sum>t\<leftarrow>Samples. a (match_both_and_large_enough_and_cna t s))
       GREATER_EQUAL (rho cfg * real (length Samples))"

text \<open>\<open>gb.quicksum(dat.loc[(t,s)].mb * is_homdel[(t, s)] for s in Segments)\<close>\<close>

fun homdel_sum :: "real row list \<Rightarrow> string \<Rightarrow> string list \<Rightarrow> error + linexpr" where
  "homdel_sum dat t [] = Inr (\<lambda>a. 0)"
| "homdel_sum dat t (s # ss) =
     (case dat_loc dat t s of
        Inl e \<Rightarrow> Inl e
      | Inr rw \<Rightarrow>
          (case homdel_sum dat t ss of
             Inl e \<Rightarrow> Inl e
           | Inr rest \<Rightarrow> Inr (\<lambda>a. mb rw * a (is_homdel t s) + rest a)))"

fun sample_loop ::
  "real row list \<Rightarrow> string list \<Rightarrow> string list \<Rightarrow> model \<Rightarrow> (error \<times> model) + model" where
  "sample_loop dat Segments [] m = Inr m"
| "sample_loop dat Segments (t # ts) m =
     (case homdel_sum dat t Segments of
        Inl e \<Rightarrow> Inl (e, m)
      | Inr h \<Rightarrow>
          sample_loop dat Segments ts
            (add_constrs
               [Constr (\<lambda>a. a (homdel_mb t)) EQUAL h,
                Constr (\<lambda>a. a (n_cna_segments_per_sample t)) EQUAL
                  (\<lambda>a. \<Sum>s\<leftarrow>Segments. a (is_cna t s))] m))"

subsection \<open>Objectives, lines 311 to 340\<close>

definition tcn_term_constrs :: "string \<Rightarrow> string \<Rightarrow> constr list" where
  "tcn_term_constrs t s =
     [Constr (\<lambda>a. a (tcn_int_err_term t s)) LESS_EQUAL (\<lambda>a. a (tcn_int_err t s)),
      Constr (\<lambda>a. a (tcn_int_err_term t s)) LESS_EQUAL (\<lambda>a. a (allmatch s)),
      Constr (\<lambda>a. a (tcn_int_err_term t s)) GREATER_EQUAL
        (\<lambda>a. a (tcn_int_err t s) - (1 - a (allmatch s))),
      Constr (\<lambda>a. a (tcn_int_err_term t s)) GREATER_EQUAL (\<lambda>a. 0)]"

definition mcn_term_constrs :: "string \<Rightarrow> string \<Rightarrow> constr list" where
  "mcn_term_constrs t s =
     [Constr (\<lambda>a. a (mcn_int_err_term t s)) LESS_EQUAL (\<lambda>a. a (mcn_int_err t s)),
      Constr (\<lambda>a. a (mcn_int_err_term t s)) LESS_EQUAL (\<lambda>a. a (allmatch s)),
      Constr (\<lambda>a. a (mcn_int_err_term t s)) GREATER_EQUAL
        (\<lambda>a. a (mcn_int_err t s) - (1 - a (allmatch s))),
      Constr (\<lambda>a. a (mcn_int_err_term t s)) GREATER_EQUAL (\<lambda>a. 0)]"

definition error_constrs :: "config \<Rightarrow> string list \<Rightarrow> string list \<Rightarrow> model \<Rightarrow> model" where
  "error_constrs cfg Samples Segments m =
     (if obj2_clonalonly cfg = False then
        add_constrs
          [Constr (\<lambda>a. a tcn_error_clonal) EQUAL
             (\<lambda>a. \<Sum>t\<leftarrow>Samples. \<Sum>s\<leftarrow>Segments. a (tcn_int_err t s)),
           Constr (\<lambda>a. a mcn_error_clonal) EQUAL
             (\<lambda>a. \<Sum>t\<leftarrow>Samples. \<Sum>s\<leftarrow>Segments. a (mcn_int_err t s))] m
      else
        add_constrs
          (concat (map (\<lambda>(t, s). tcn_term_constrs t s @ mcn_term_constrs t s)
                     (List.product Samples Segments)) @
           [Constr (\<lambda>a. a tcn_error_clonal) EQUAL
              (\<lambda>a. \<Sum>t\<leftarrow>Samples. \<Sum>s\<leftarrow>Segments. a (tcn_int_err_term t s)),
            Constr (\<lambda>a. a mcn_error_clonal) EQUAL
              (\<lambda>a. \<Sum>t\<leftarrow>Samples. \<Sum>s\<leftarrow>Segments. a (mcn_int_err_term t s))])
          (add_vars
             (addVars2 Samples Segments CONTINUOUS ''tcn_int_err_term'' None None @
              addVars2 Samples Segments CONTINUOUS ''mcn_int_err_term'' None None) m))"

definition set_objectives :: "config \<Rightarrow> model \<Rightarrow> model" where
  "set_objectives cfg m =
     (setObjectiveN (\<lambda>a. - a mcn_error_clonal) 1 1 (mcn_weight cfg) ''MCN error''
        (setObjectiveN (\<lambda>a. - a tcn_error_clonal) 1 1 (1 - mcn_weight cfg) ''TCN error''
           (setObjectiveN (\<lambda>a. a n_clonal) 0 2 1 ''N clonal segs'' m)))
     \<lparr>ModelSense := MAXIMIZE\<rparr>"

subsection \<open>The builder\<close>

text \<open>
  Everything \<open>CNAlign\<close> does before \<open>model.optimize\<close>, in the order of the source. An
  exception is \<open>Inl\<close> with the model as it stood when it was raised (the empty model
  before \<open>gb.Model\<close> exists). Opening the licence environment (\<open>gb.Env\<close>) is the
  solver's business and is taken to succeed; the console report is left out.
\<close>

definition CNAlign_build ::
  "string list option \<Rightarrow> real option row list \<Rightarrow> config \<Rightarrow> (error \<times> model) + model" where
  "CNAlign_build license dat0 cfg =
     (case read_license license of
        Inl e \<Rightarrow> Inl (e, new_model)
      | Inr params \<Rightarrow>
          (let Samples = unique (map sample dat0);
               Segments = unique (map segment dat0);
               dat = map recode_BAF dat0;
               m0 = new_model\<lparr>PoolSolutions := sol_count cfg\<rparr>;
               m1 = add_vars (tcn_vars Samples Segments @ mcn_vars Samples Segments @
                              combined_vars Samples Segments @ pl_vars cfg Samples) m0
           in
           if max_purity cfg = 0 \<or> min_purity cfg = 0 then Inl (ZeroDivisionError, m1)
           else
             (let m2 = add_vars (z_vars cfg Samples @ sample_vars cfg Samples Segments) m1 in
              if length Samples = 0 then Inl (ZeroDivisionError, m2)
              else
                (let m3 = add_constrs
                            [Constr (\<lambda>a. a avg_ploidy) EQUAL
                               (\<lambda>a. (\<Sum>t\<leftarrow>Samples. a (pl t)) / real (length Samples))] m2;
                     m4 = add_vars [n_clonal_var Segments] m3
                 in
                 case cell_loop dat cfg Samples (List.product Segments Samples) m4 of
                   Inl e \<Rightarrow> Inl e
                 | Inr m5 \<Rightarrow>
                     (case sample_loop dat Segments Samples
                             (add_constrs (map (allmatch_constr cfg Samples) Segments) m5) of
                        Inl e \<Rightarrow> Inl e
                      | Inr m6 \<Rightarrow>
                          Inr (set_objectives cfg
                                 (error_constrs cfg Samples Segments
                                    (add_constrs
                                       [Constr (\<lambda>a. a n_clonal) EQUAL
                                          (\<lambda>a. \<Sum>s\<leftarrow>Segments. a (allmatch s))] m6))))))))"

section \<open>Extracting the solution pool (core.py, lines 352 to 427)\<close>

text \<open>
  After \<open>model.optimize\<close> the solver holds \<open>SolCount\<close> pooled solutions; with
  \<open>SolutionNumber = i\<close> the attribute \<open>Xn\<close> of a variable is its value in solution
  \<open>i\<close>. The pool is the list of these assignments, best first.
\<close>

text \<open>The returned frame: its column names, and its rows as (Variable, values).\<close>

record table =
  columns :: "string list"
  rows :: "(string \<times> real list) list"

text \<open>\<open>str(i)\<close> of a non-negative integer, for the column names \<open>f"Solution_{i+1}"\<close>.\<close>

fun str_nat :: "nat \<Rightarrow> string" where
  "str_nat n =
     (if n < 10 then [''0123456789'' ! n]
      else str_nat (n div 10) @ [''0123456789'' ! (n mod 10)])"

text \<open>\<open>name.startswith(prefix)\<close>\<close>

definition startswith :: "string \<Rightarrow> string \<Rightarrow> bool" where
  "startswith name prefix = (take (length prefix) name = prefix)"

text \<open>
  \<open>Series.replace('z\\[', 'pu[', regex=True)\<close>: every occurrence of \<open>z[\<close> in the name
  becomes \<open>pu[\<close>, scanning from the left.
\<close>

fun replace_z :: "string \<Rightarrow> string" where
  "replace_z (a # b # rest) =
     (if a = CHR ''z'' \<and> b = CHR ''['' then ''pu['' @ replace_z rest
      else a # replace_z (b # rest))"
| "replace_z name = name"

text \<open>
  \<open>DataFrame.round(6)\<close> on real numbers: scale by \<open>10^6\<close>, round to the nearest integer
  with ties to the even one, scale back.
\<close>

definition rint :: "real \<Rightarrow> int" where
  "rint x =
     (let f = \<lfloor>x\<rfloor>; d = x - of_int f in
      if d < 1 / 2 then f else if 1 / 2 < d then f + 1 else if even f then f else f + 1)"

definition round6 :: "real \<Rightarrow> real" where
  "round6 x = of_int (rint (x * 10 ^ 6)) / 10 ^ 6"

text \<open>\<open>[v for v in model.getVars() if v.VarName.startswith(prefix)]\<close>\<close>

definition vars_with_prefix :: "model \<Rightarrow> string \<Rightarrow> var list" where
  "vars_with_prefix m prefix =
     filter (\<lambda>x. startswith (VarName x) prefix) (map var_of (vars m))"

text \<open>\<open>model.getVarByName(name)\<close>: a variable of that name, \<open>None\<close> when there is none.\<close>

definition getVarByName :: "model \<Rightarrow> string \<Rightarrow> var option" where
  "getVarByName m name =
     (case filter (\<lambda>x. VarName x = name) (map var_of (vars m)) of
        [] \<Rightarrow> None
      | x # xs \<Rightarrow> Some x)"

text \<open>The frame of one variable group: a row per variable, a value per solution.\<close>

definition value_rows :: "var list \<Rightarrow> assignment list \<Rightarrow> (string \<times> real list) list" where
  "value_rows xs pool = map (\<lambda>x. (VarName x, map (\<lambda>sol. sol x) pool)) xs"

text \<open>
  Lines 358 to 364: \<open>Obj2\<close> of each solution from the two error variables looked up by
  name; the lookups happen only when there is a solution.
\<close>

definition obj2_vals :: "model \<Rightarrow> assignment list \<Rightarrow> real \<Rightarrow> error + real list" where
  "obj2_vals m pool w =
     (if pool = [] then Inr []
      else
        (case getVarByName m ''tcn_error_clonal'' of
           None \<Rightarrow> Inl AttributeError
         | Some te \<Rightarrow>
             (case getVarByName m ''mcn_error_clonal'' of
                None \<Rightarrow> Inl AttributeError
              | Some me \<Rightarrow> Inr (map (\<lambda>sol. - (1 - w) * sol te - w * sol me) pool))))"

text \<open>
  Lines 352 to 427. Purity is \<open>1/v.Xn\<close> of the \<open>z\<close> variables, a ZeroDivisionError
  when some pooled \<open>z\<close> is 0.
\<close>

definition ExtractSolutions :: "model \<Rightarrow> assignment list \<Rightarrow> real \<Rightarrow> error + table" where
  "ExtractSolutions m pool w =
     (case obj2_vals m pool w of
        Inl e \<Rightarrow> Inl e
      | Inr obj2 \<Rightarrow>
          (let obj_df = [(''Obj1'', map (\<lambda>sol. sol n_clonal) pool), (''Obj2'', obj2)];
               pl_df = value_rows (vars_with_prefix m ''pl['') pool;
               pu_vars = vars_with_prefix m ''z[''
           in
           if list_ex (\<lambda>sol. list_ex (\<lambda>x. sol x = 0) pu_vars) pool then Inl ZeroDivisionError
           else
             (let pu_df = map (\<lambda>x. (replace_z (VarName x), map (\<lambda>sol. 1 / sol x) pool)) pu_vars;
                  allmatch_df = value_rows (vars_with_prefix m ''allmatch['') pool;
                  tcn_df = value_rows (vars_with_prefix m ''tcn['') pool;
                  mcn_df = value_rows (vars_with_prefix m ''mcn['') pool;
                  out = obj_df @ pl_df @ pu_df @ allmatch_df @ tcn_df @ mcn_df
              in
              Inr \<lparr>columns = ''Variable'' #
                               map (\<lambda>i. ''Solution_'' @ str_nat (i + 1)) [0..<length pool],
                   rows = map (\<lambda>(name, vals). (name, map round6 vals)) out\<rparr>)))"

section \<open>The built model in closed form\<close>

text \<open>
  What the builder returns when nothing raises, written as one expression over the
  sample and segment lists. These definitions restate the loops of the builder; the
  lemmas \<open>build_Inr\<close> and \<open>build_total\<close> below prove that they agree with it.
\<close>

definition row_at :: "real row list \<Rightarrow> string \<Rightarrow> string \<Rightarrow> real row" where
  "row_at dat t s = projr (dat_loc dat t s)"

definition homdel_expr :: "real row list \<Rightarrow> string list \<Rightarrow> string \<Rightarrow> linexpr" where
  "homdel_expr dat Segments t = (\<lambda>a. \<Sum>s\<leftarrow>Segments. mb (row_at dat t s) * a (is_homdel t s))"

definition sample_constrs :: "real row list \<Rightarrow> string list \<Rightarrow> string \<Rightarrow> constr list" where
  "sample_constrs dat Segments t =
     [Constr (\<lambda>a. a (homdel_mb t)) EQUAL (homdel_expr dat Segments t),
      Constr (\<lambda>a. a (n_cna_segments_per_sample t)) EQUAL (\<lambda>a. \<Sum>s\<leftarrow>Segments. a (is_cna t s))]"

definition term_vars :: "config \<Rightarrow> string list \<Rightarrow> string list \<Rightarrow> vdecl list" where
  "term_vars cfg Samples Segments =
     (if obj2_clonalonly cfg = False then []
      else addVars2 Samples Segments CONTINUOUS ''tcn_int_err_term'' None None @
           addVars2 Samples Segments CONTINUOUS ''mcn_int_err_term'' None None)"

definition built_vars :: "config \<Rightarrow> string list \<Rightarrow> string list \<Rightarrow> vdecl list" where
  "built_vars cfg Samples Segments =
     tcn_vars Samples Segments @ mcn_vars Samples Segments @ combined_vars Samples Segments @
     pl_vars cfg Samples @ z_vars cfg Samples @ sample_vars cfg Samples Segments @
     [n_clonal_var Segments] @ term_vars cfg Samples Segments"

definition pl_avg_constr :: "string list \<Rightarrow> constr" where
  "pl_avg_constr Samples =
     Constr (\<lambda>a. a avg_ploidy) EQUAL (\<lambda>a. (\<Sum>t\<leftarrow>Samples. a (pl t)) / real (length Samples))"

definition n_clonal_constr :: "string list \<Rightarrow> constr" where
  "n_clonal_constr Segments = Constr (\<lambda>a. a n_clonal) EQUAL (\<lambda>a. \<Sum>s\<leftarrow>Segments. a (allmatch s))"

definition built_error_constrs :: "config \<Rightarrow> string list \<Rightarrow> string list \<Rightarrow> constr list" where
  "built_error_constrs cfg Samples Segments =
     constrs (error_constrs cfg Samples Segments new_model)"

definition built_constrs ::
  "config \<Rightarrow> real row list \<Rightarrow> string list \<Rightarrow> string list \<Rightarrow> constr list" where
  "built_constrs cfg dat Samples Segments =
     [pl_avg_constr Samples] @
     concat (map (\<lambda>(s, t). cell_constrs cfg Samples t s (row_at dat t s))
               (List.product Segments Samples)) @
     map (allmatch_constr cfg Samples) Segments @
     concat (map (sample_constrs dat Segments) Samples) @
     [n_clonal_constr Segments] @
     built_error_constrs cfg Samples Segments"

definition built_objectives :: "config \<Rightarrow> objective list" where
  "built_objectives cfg = objectives (set_objectives cfg new_model)"

definition built_model ::
  "config \<Rightarrow> real row list \<Rightarrow> string list \<Rightarrow> string list \<Rightarrow> model" where
  "built_model cfg dat Samples Segments =
     \<lparr>PoolSolutions = sol_count cfg, vars = built_vars cfg Samples Segments,
      constrs = built_constrs cfg dat Samples Segments,
      objectives = built_objectives cfg, ModelSense = MAXIMIZE\<rparr>"

text \<open>Every (sample, segment) pair has exactly one row.\<close>

definition cells_present :: "real row list \<Rightarrow> string list \<Rightarrow> string list \<Rightarrow> bool" where
  "cells_present dat Samples Segments =
     list_all (\<lambda>t. list_all (\<lambda>s. dat_loc dat t s = Inr (row_at dat t s)) Segments) Samples"

text \<open>
  The right-hand sides of the two signal constraints of a cell (lines 198, 199, 204 and
  205), as functions of the sample's ploidy \<open>p\<close> and inverse purity \<open>q\<close>.
\<close>

definition n1_of :: "real row \<Rightarrow> real \<Rightarrow> real \<Rightarrow> real" where
  "n1_of rw p q =
     (let r = logR rw; b = BAF rw; g = GC rw; c = 2 powr r; c1 = 2 powr (r + 1) in
      if b \<noteq> - 9 then
        - b * c * p + b * c1 - b * c1 * q + c * p - c1 + c1 * q + g - g * q - 1 + q
      else q * c * 2 + c * p - 2 * c - g * q + g)"

definition mcn_of :: "real row \<Rightarrow> real \<Rightarrow> real \<Rightarrow> real" where
  "mcn_of rw p q =
     (let r = logR rw; b = BAF rw; c = 2 powr r; c1 = 2 powr (r + 1) in
      if b \<noteq> - 9 then b * c * p - b * c1 + b * c1 * q + 1 - q else 0)"

text \<open>
  An assignment the solver may hand back for an input: the builder returns a model and
  the model admits the assignment.
\<close>

definition feasible ::
  "string list option \<Rightarrow> real option row list \<Rightarrow> config \<Rightarrow> assignment \<Rightarrow> bool" where
  "feasible license dat0 cfg a =
     (case CNAlign_build license dat0 cfg of Inl e \<Rightarrow> False | Inr m \<Rightarrow> sat m a)"


section \<open>The solver's ordering of assignments\<close>

text \<open>
  The solver's multi-objective mode as gurobipy documents it (the solver is not part of
  the repository): every objective carries a priority and a weight; the objectives of
  one priority are blended into their weighted sum; the blends are optimised in order of
  decreasing priority, a lower one never at the cost of a higher one.
\<close>

definition blended :: "model \<Rightarrow> int \<Rightarrow> linexpr" where
  "blended m p =
     (\<lambda>a. \<Sum>ob\<leftarrow>filter (\<lambda>ob. obj_priority ob = p) (objectives m). obj_weight ob * obj_expr ob a)"

definition level_priorities :: "model \<Rightarrow> int list" where
  "level_priorities m = rev (sort (remdups (map obj_priority (objectives m))))"

fun lex_less :: "linexpr list \<Rightarrow> assignment \<Rightarrow> assignment \<Rightarrow> bool" where
  "lex_less [] a b = False"
| "lex_less (f # fs) a b = (f a < f b \<or> (f a = f b \<and> lex_less fs a b))"

definition better :: "model \<Rightarrow> assignment \<Rightarrow> assignment \<Rightarrow> bool" where
  "better m b a =
     (case ModelSense m of
        MAXIMIZE \<Rightarrow> lex_less (map (blended m) (level_priorities m)) a b
      | MINIMIZE \<Rightarrow> lex_less (map (blended m) (level_priorities m)) b a)"

definition optimal :: "model \<Rightarrow> assignment \<Rightarrow> bool" where
  "optimal m a = (sat m a \<and> (\<forall>b. sat m b \<longrightarrow> \<not> better m b a))"

section \<open>Concrete instances\<close>

definition lic_ex :: "string list option" where
  "lic_ex = Some [''# Gurobi WLS license file'', ''# Your credentials are private'',
                  ''# License expires 2030-01-01'', ''WLSACCESSID=0f1e2d3c'',
                  ''WLSSECRET=6b7a8c9d  '', ''LICENSEID=2403170'']"

definition dat_ex :: "real option row list" where
  "dat_ex = [\<lparr>sample = ''A'', segment = ''s1'', logR = 0, BAF = None, GC = 2, mb = 10\<rparr>,
             \<lparr>sample = ''B'', segment = ''s1'', logR = 0, BAF = Some 0, GC = 2, mb = 10\<rparr>]"

definition cfg_ex :: config where
  "cfg_ex = \<lparr>min_ploidy = 1, max_ploidy = 6, min_purity = 1 / 10, max_purity = 1,
      min_aligned_seg_mb = 5, max_homdel_mb = 100,
      delta_tcn_to_int = 1 / 10, delta_tcn_to_avg = 1 / 10, delta_tcnavg_to_int = 1 / 10,
      delta_mcn_to_int = 1 / 10, delta_mcn_to_avg = 1 / 10, delta_mcnavg_to_int = 1 / 10,
      mcn_weight = 1 / 2, rho = 1, timeout = 60, min_cna_segments_per_sample = 0,
      obj2_clonalonly = False, sol_count = 5\<rparr>"

fun a_ex :: "real \<Rightarrow> assignment" where
  "a_ex k (Var2 n t s) =
     (if n \<in> set [''n1'', ''tcn'', ''tcn_avg'', ''tcn_int'', ''tcn_avg_int''] then 4
      else if n \<in> set [''tcn_close_to_int'', ''tcn_close_to_avg'', ''tcn_avg_close_to_int'',
                        ''tcn_match'', ''tcn_match_and_avg_at_int'', ''tcn_gain'', ''tcn_cna'',
                        ''mcn_close_to_int'', ''mcn_close_to_avg'', ''mcn_avg_close_to_int'',
                        ''mcn_match'', ''mcn_match_and_avg_at_int'', ''match_both'',
                        ''large_enough'', ''match_both_and_large_enough'',
                        ''match_both_and_large_enough_and_cna'', ''is_cna''] then 1
      else 0)"
| "a_ex k (Var1 n i) =
     (if n = ''pl'' then 4 else if n = ''z'' then (if i = ''A'' then 3 else 1)
      else if n = ''n_cna_segments_per_sample'' then 1
      else if n = ''allmatch'' then k else 0)"
| "a_ex k (Var0 n) = (if n = ''avg_ploidy'' then 4 else if n = ''n_clonal'' then k else 0)"

text \<open>
  The first example assignment with a larger deviation variable for the cell of sample A
  and the total that goes with it.
\<close>

definition a_tcn :: assignment where
  "a_tcn = (a_ex 1)(tcn_int_err ''A'' ''s1'' := 1 / 20, tcn_error_clonal := 1 / 20)"

text \<open>The same copy numbers with every flag at 0.\<close>

fun a_slack :: assignment where
  "a_slack (Var2 n t s) =
     (if n \<in> set [''n1'', ''tcn'', ''tcn_avg'', ''tcn_int'', ''tcn_avg_int''] then 4 else 0)"
| "a_slack (Var1 n i) = (if n = ''pl'' then 4 else if n = ''z'' then 1 else 0)"
| "a_slack (Var0 n) = (if n = ''avg_ploidy'' then 4 else 0)"

definition m_ex :: model where
  "m_ex = built_model cfg_ex (map recode_BAF dat_ex) [''A'', ''B''] [''s1'']"

definition st10 :: callback_state where
  "st10 = \<lparr>max_stagnation = 60, obj_count = 1, last_improve_time = 0,
           best_obj = Fin 10, stagnated = False\<rparr>"

definition trace_ex :: "event list" where
  "trace_ex = [MIP (Some 5) 2, MIP (Some 5) 20, MIP (Some 5) 40]"

definition dat_neg :: "real option row list" where
  "dat_neg = [\<lparr>sample = ''A'', segment = ''s1'', logR = 0, BAF = None, GC = 4, mb = 10\<rparr>]"

definition cfg_neg :: config where
  "cfg_neg = cfg_ex\<lparr>max_purity := 1 / 5\<rparr>"

definition m_neg :: model where
  "m_neg = built_model cfg_neg (map recode_BAF dat_neg) [''A''] [''s1'']"




definition pool_ex :: "assignment list" where
  "pool_ex = [a_ex 1, a_ex 0]"

section \<open>Properties of the stagnation callback\<close>

lemma GRB_INFINITY_gt: "x \<le> 1000000 \<Longrightarrow> x < GRB_INFINITY"
proof -
  have "(1000000::real) < 10 ^ 100" by simp
  then show "x \<le> 1000000 \<Longrightarrow> x < GRB_INFINITY" unfolding GRB_INFINITY_def by linarith
qed

lemma fst_run_Cons: "fst (run st (e # es)) = fst (run (fst (call st e)) es)"
  by (simp split: prod.splits)

lemma snd_run_Cons: "snd (run st (e # es)) = snd (call st e) # snd (run (fst (call st e)) es)"
  by (simp split: prod.splits)

lemmas run_Cons = fst_run_Cons snd_run_Cons

lemma call_max_stagnation: "max_stagnation (fst (call st e)) = max_stagnation st"
  by (cases "(st, e)" rule: call.cases) auto

lemma run_max_stagnation: "max_stagnation (fst (run st evs)) = max_stagnation st"
proof (induction evs arbitrary: st)
  case Nil
  show ?case by simp
next
  case (Cons e es)
  have "max_stagnation (fst (run (fst (call st e)) es)) = max_stagnation (fst (call st e))"
    by (rule Cons.IH)
  then show ?case by (simp add: call_max_stagnation run_Cons del: run.simps(2))
qed

lemma call_stagnated_quiet:
  "stagnated st \<Longrightarrow> \<not> is_MULTIOBJ e \<Longrightarrow> snd (call st e) = [] \<and> stagnated (fst (call st e))"
  by (cases "(st, e)" rule: call.cases) auto

lemma run_stagnated_quiet:
  "stagnated st \<Longrightarrow> \<forall>e\<in>set evs. \<not> is_MULTIOBJ e \<Longrightarrow> concat (snd (run st evs)) = []"
proof (induction evs arbitrary: st)
  case Nil
  show ?case by simp
next
  case (Cons e es)
  from Cons.prems have q: "snd (call st e) = []" and s: "stagnated (fst (call st e))"
    using call_stagnated_quiet [of st e] by auto
  from Cons.prems have "\<forall>x\<in>set es. \<not> is_MULTIOBJ x" by simp
  with s have "concat (snd (run (fst (call st e)) es)) = []" by (rule Cons.IH)
  with q show ?case by (simp add: run_Cons del: run.simps(2))
qed

lemma call_signal_stagnates:
  "snd (call st e) \<noteq> [] \<Longrightarrow>
     stagnated (fst (call st e)) \<and> snd (call st e) = [StopOneMultiObj (obj_count st)] \<and>
     \<not> stagnated st \<and> event_time e - last_improve_time st > max_stagnation st"
  by (cases "(st, e)" rule: call.cases) (auto split: if_splits)

lemma run_level_at_most_one:
  "\<forall>e\<in>set evs. \<not> is_MULTIOBJ e \<Longrightarrow> length (concat (snd (run st evs))) \<le> 1"
proof (induction evs arbitrary: st)
  case Nil
  show ?case by simp
next
  case (Cons e es)
  from Cons.prems have rest: "\<forall>x\<in>set es. \<not> is_MULTIOBJ x" by simp
  show ?case
  proof (cases "snd (call st e) = []")
    case True
    have "length (concat (snd (run (fst (call st e)) es))) \<le> 1" using rest by (rule Cons.IH)
    with True show ?thesis by (simp add: run_Cons del: run.simps(2))
  next
    case False
    then have s: "stagnated (fst (call st e))" and o: "snd (call st e) = [StopOneMultiObj (obj_count st)]"
      using call_signal_stagnates [of st e] by auto
    from s rest have "concat (snd (run (fst (call st e)) es)) = []" by (rule run_stagnated_quiet)
    with o show ?thesis by (simp add: run_Cons del: run.simps(2))
  qed
qed

lemma length_run: "length (snd (run st evs)) = length evs"
  by (induction evs arbitrary: st) (simp_all add: run_Cons del: run.simps(2))

lemma run_nth:
  "i < length evs \<Longrightarrow> snd (run st evs) ! i = snd (call (fst (run st (take i evs))) (evs ! i))"
proof (induction evs arbitrary: st i)
  case Nil
  then show ?case by simp
next
  case (Cons e es)
  show ?case
  proof (cases i)
    case 0
    then show ?thesis by (simp add: run_Cons del: run.simps(2))
  next
    case (Suc j)
    with Cons.prems have "j < length es" by simp
    then have "snd (run (fst (call st e)) es) ! j =
        snd (call (fst (run (fst (call st e)) (take j es))) (es ! j))" by (rule Cons.IH)
    with Suc show ?thesis by (simp add: run_Cons del: run.simps(2))
  qed
qed

lemma run_quiet_or_count:
  "length (concat (snd (run st evs))) \<le>
     (if stagnated st then 0 else 1) + length (filter is_MULTIOBJ evs)"
proof (induction evs arbitrary: st)
  case Nil
  show ?case by simp
next
  case (Cons e es)
  let ?st = "fst (call st e)"
  have ih: "length (concat (snd (run ?st es))) \<le>
     (if stagnated ?st then 0 else 1) + length (filter is_MULTIOBJ es)" by (rule Cons.IH)
  show ?case
  proof (cases "(st, e)" rule: call.cases)
    case (1 st0 cnt now)
    with ih show ?thesis by (simp add: run_Cons del: run.simps(2))
  next
    case (2 st0 now)
    with ih show ?thesis by (simp add: run_Cons del: run.simps(2))
  next
    case (3 st0 r now)
    with ih show ?thesis by (simp add: run_Cons del: run.simps split: if_splits)
  next
    case (4 st0 now)
    with ih show ?thesis by (simp add: run_Cons del: run.simps(2))
  qed
qed

text \<open>
  Claim C4, as the code has it: a periodic report updates the stored best bound and the
  last-improvement timestamp exactly when it is below \<open>GRB.INFINITY\<close> and differs
  from the stored best by more than 1e-5 in absolute value, whatever the direction of
  the difference; otherwise both are left as they were.
\<close>

theorem call_MIP_updates_on_change:
  "call st (MIP (Some r) now) = (st', out) \<Longrightarrow>
     (if r < GRB_INFINITY \<and> differs r (best_obj st)
      then best_obj st' = Fin r \<and> last_improve_time st' = now \<and> out = []
      else best_obj st' = best_obj st \<and> last_improve_time st' = last_improve_time st)"
  by (auto split: if_splits)

text \<open>Witness for C4: a report of 15 against a stored best of 10.\<close>

theorem call_MIP_updates_on_change_witness:
  "call st10 (MIP (Some 15) 7) = (st10\<lparr>best_obj := Fin 15, last_improve_time := 7\<rparr>, []) \<and>
   15 < GRB_INFINITY \<and> differs 15 (best_obj st10) \<and>
   best_obj (st10\<lparr>best_obj := Fin 15, last_improve_time := 7\<rparr>) = Fin 15"
  using call_MIP_updates_on_change [of st10 15 7 "st10\<lparr>best_obj := Fin 15, last_improve_time := 7\<rparr>" "[]"]
  by (simp add: st10_def GRB_INFINITY_gt)

text \<open>
  Counterexample to C4 as stated: under the maximising sense of the model, a report of
  5 against a stored best of 10 is worse, and it still replaces the stored best and
  resets the timestamp.
\<close>

theorem worse_report_counts_as_improvement:
  "best_obj st10 = Fin 10 \<and> last_improve_time st10 = 0 \<and>
   best_obj (fst (call st10 (MIP (Some 5) 7))) = Fin 5 \<and>
   last_improve_time (fst (call st10 (MIP (Some 5) 7))) = 7"
  by (simp add: st10_def GRB_INFINITY_gt)

text \<open>
  Claim C5: for every sequence of callback events, (1) within one priority level (a run
  of events with no level transition, from any state) at most one stop signal is
  emitted, and over a whole sequence at most one more than the number of level
  transitions; (2) a signal emitted at an event means that more than \<open>max_stagnation\<close>
  seconds lie between that event's time and the last-improvement timestamp held
  before it, and the signal stops the level then active; (3) a report that differs from
  (in particular improves on) the stored best by more than 1e-5 sets the timestamp to
  now without a signal; (4) a level-transition event resets best bound, timestamp and
  stagnated flag; and the timestamp is the time of the current event after a level
  transition or such a report, and is left as it was by every other invocation.
\<close>

theorem stagnation_controller_trace:
  "((\<forall>e\<in>set evs. \<not> is_MULTIOBJ e) \<longrightarrow> length (concat (snd (run st evs))) \<le> 1) \<and>
   length (concat (snd (run st evs))) \<le> 1 + length (filter is_MULTIOBJ evs) \<and>
   (i < length evs \<and> snd (run st evs) ! i \<noteq> [] \<longrightarrow>
      event_time (evs ! i) - last_improve_time (fst (run st (take i evs))) > max_stagnation st \<and>
      snd (run st evs) ! i = [StopOneMultiObj (obj_count (fst (run st (take i evs))))]) \<and>
   (r < GRB_INFINITY \<and> differs r (best_obj st) \<longrightarrow>
      call st (MIP (Some r) now) = (st\<lparr>best_obj := Fin r, last_improve_time := now\<rparr>, [])) \<and>
   (best_obj st = Fin b \<and> b + 1 / 100000 < r \<and> r < GRB_INFINITY \<longrightarrow>
      last_improve_time (fst (call st (MIP (Some r) now))) = now \<and>
      snd (call st (MIP (Some r) now)) = []) \<and>
   call st (MULTIOBJ cnt now) =
     (st\<lparr>obj_count := cnt, best_obj := PInf, last_improve_time := now, stagnated := False\<rparr>, []) \<and>
   last_improve_time (fst (call st e)) =
     (if resets_clock st e then event_time e else last_improve_time st)"
proof -
  have level: "(\<forall>e\<in>set evs. \<not> is_MULTIOBJ e) \<longrightarrow> length (concat (snd (run st evs))) \<le> 1"
    using run_level_at_most_one by blast
  have total: "length (concat (snd (run st evs))) \<le> 1 + length (filter is_MULTIOBJ evs)"
    using run_quiet_or_count [of st evs] by (simp split: if_splits)
  have timed: "i < length evs \<and> snd (run st evs) ! i \<noteq> [] \<longrightarrow>
      event_time (evs ! i) - last_improve_time (fst (run st (take i evs))) > max_stagnation st \<and>
      snd (run st evs) ! i = [StopOneMultiObj (obj_count (fst (run st (take i evs))))]"
  proof
    assume a: "i < length evs \<and> snd (run st evs) ! i \<noteq> []"
    let ?pre = "fst (run st (take i evs))"
    from a have eq: "snd (run st evs) ! i = snd (call ?pre (evs ! i))" by (simp add: run_nth)
    with a have "snd (call ?pre (evs ! i)) \<noteq> []" by simp
    then have "snd (call ?pre (evs ! i)) = [StopOneMultiObj (obj_count ?pre)] \<and>
       event_time (evs ! i) - last_improve_time ?pre > max_stagnation ?pre"
      using call_signal_stagnates [of ?pre "evs ! i"] by simp
    with eq show "event_time (evs ! i) - last_improve_time ?pre > max_stagnation st \<and>
      snd (run st evs) ! i = [StopOneMultiObj (obj_count ?pre)]"
      by (simp add: run_max_stagnation)
  qed
  have reset: "r < GRB_INFINITY \<and> differs r (best_obj st) \<longrightarrow>
      call st (MIP (Some r) now) = (st\<lparr>best_obj := Fin r, last_improve_time := now\<rparr>, [])"
    by simp
  have improving: "best_obj st = Fin b \<and> b + 1 / 100000 < r \<and> r < GRB_INFINITY \<longrightarrow>
      last_improve_time (fst (call st (MIP (Some r) now))) = now \<and>
      snd (call st (MIP (Some r) now)) = []"
    by auto
  have transition: "call st (MULTIOBJ cnt now) =
     (st\<lparr>obj_count := cnt, best_obj := PInf, last_improve_time := now, stagnated := False\<rparr>, [])"
    by simp
  have clock: "last_improve_time (fst (call st e)) =
     (if resets_clock st e then event_time e else last_improve_time st)"
    by (cases "(st, e)" rule: call.cases) auto
  from level total timed reset improving transition clock show ?thesis by blast
qed

text \<open>
  Witness for C5: a level with one improving report and two stale ones emits exactly
  one signal, at the first stale report past the timeout.
\<close>

theorem stagnation_controller_trace_witness:
  "snd (run (StagnationCallback_init 10 0) trace_ex) = [[], [StopOneMultiObj 0], []] \<and>
   length (concat (snd (run (StagnationCallback_init 10 0) trace_ex))) \<le> 1 \<and>
   list_all (\<lambda>e. \<not> is_MULTIOBJ e) trace_ex \<and>
   event_time (trace_ex ! 1) - last_improve_time (fst (run (StagnationCallback_init 10 0) (take 1 trace_ex)))
     > max_stagnation (StagnationCallback_init 10 0) \<and>
   call (fst (call (StagnationCallback_init 10 0) (MIP (Some 5) 2))) (MIP (Some 6) 30) =
     ((fst (call (StagnationCallback_init 10 0) (MIP (Some 5) 2)))\<lparr>best_obj := Fin 6, last_improve_time := 30\<rparr>, [])"
  using stagnation_controller_trace [where evs = trace_ex and st = "StagnationCallback_init 10 0" and i = 1]
    stagnation_controller_trace [where st = "fst (call (StagnationCallback_init 10 0) (MIP (Some 5) 2))" and r = 6 and now = 30 and b = 5]
  by (simp add: trace_ex_def StagnationCallback_init_def GRB_INFINITY_gt)

section \<open>The builder and its closed form\<close>

lemma cell_loop_Inr:
  "cell_loop dat cfg Samples ps m = Inr m' \<Longrightarrow>
     m' = add_constrs (concat (map (\<lambda>(s, t). cell_constrs cfg Samples t s (row_at dat t s)) ps)) m \<and>
     (\<forall>(s, t)\<in>set ps. dat_loc dat t s = Inr (row_at dat t s))"
proof (induction ps arbitrary: m)
  case Nil
  then show ?case by (simp add: add_constrs_def)
next
  case (Cons p ps)
  obtain s t where p: "p = (s, t)" by (cases p)
  from Cons.prems p obtain rw where rw: "dat_loc dat t s = Inr rw"
    and rest: "cell_loop dat cfg Samples ps (add_constrs (cell_constrs cfg Samples t s rw) m) = Inr m'"
    by (auto split: sum.splits)
  from rw have at: "row_at dat t s = rw" by (simp add: row_at_def)
  from Cons.IH [OF rest] at rw p show ?case by (simp add: add_constrs_def)
qed

lemma cell_loop_total:
  "(\<forall>(s, t)\<in>set ps. dat_loc dat t s = Inr (row_at dat t s)) \<Longrightarrow>
   cell_loop dat cfg Samples ps m =
     Inr (add_constrs (concat (map (\<lambda>(s, t). cell_constrs cfg Samples t s (row_at dat t s)) ps)) m)"
proof (induction ps arbitrary: m)
  case Nil
  then show ?case by (simp add: add_constrs_def)
next
  case (Cons p ps)
  obtain s t where p: "p = (s, t)" by (cases p)
  from Cons.prems p have rw: "dat_loc dat t s = Inr (row_at dat t s)" by simp
  from Cons.prems have "\<forall>(s, t)\<in>set ps. dat_loc dat t s = Inr (row_at dat t s)" by simp
  from Cons.IH [OF this] rw p show ?case by (simp add: add_constrs_def)
qed

lemma homdel_sum_Inr:
  "homdel_sum dat t ss = Inr h \<Longrightarrow>
     h = homdel_expr dat ss t \<and> (\<forall>s\<in>set ss. dat_loc dat t s = Inr (row_at dat t s))"
proof (induction ss arbitrary: h)
  case Nil
  then show ?case by (auto simp: homdel_expr_def)
next
  case (Cons s ss)
  from Cons.prems obtain rw h' where rw: "dat_loc dat t s = Inr rw"
    and h': "homdel_sum dat t ss = Inr h'" and h: "h = (\<lambda>a. mb rw * a (is_homdel t s) + h' a)"
    by (auto split: sum.splits)
  from rw have at: "row_at dat t s = rw" by (simp add: row_at_def)
  from Cons.IH [OF h'] h at rw show ?case by (auto simp: homdel_expr_def)
qed

lemma homdel_sum_total:
  "(\<forall>s\<in>set ss. dat_loc dat t s = Inr (row_at dat t s)) \<Longrightarrow>
     homdel_sum dat t ss = Inr (homdel_expr dat ss t)"
proof (induction ss)
  case Nil
  then show ?case by (simp add: homdel_expr_def)
next
  case (Cons s ss)
  then show ?case by (auto simp: homdel_expr_def)
qed

lemma sample_loop_Inr:
  "sample_loop dat Segments ts m = Inr m' \<Longrightarrow>
     m' = add_constrs (concat (map (sample_constrs dat Segments) ts)) m"
proof (induction ts arbitrary: m)
  case Nil
  then show ?case by (simp add: add_constrs_def)
next
  case (Cons t ts)
  from Cons.prems obtain h where h: "homdel_sum dat t Segments = Inr h"
    and rest: "sample_loop dat Segments ts
            (add_constrs
               [Constr (\<lambda>a. a (homdel_mb t)) EQUAL h,
                Constr (\<lambda>a. a (n_cna_segments_per_sample t)) EQUAL
                  (\<lambda>a. \<Sum>s\<leftarrow>Segments. a (is_cna t s))] m) = Inr m'"
    by (auto split: sum.splits)
  from homdel_sum_Inr [OF h] have "h = homdel_expr dat Segments t" by simp
  with Cons.IH [OF rest] show ?case by (simp add: add_constrs_def sample_constrs_def)
qed

lemma sample_loop_total:
  "(\<forall>t\<in>set ts. \<forall>s\<in>set Segments. dat_loc dat t s = Inr (row_at dat t s)) \<Longrightarrow>
   sample_loop dat Segments ts m = Inr (add_constrs (concat (map (sample_constrs dat Segments) ts)) m)"
proof (induction ts arbitrary: m)
  case Nil
  then show ?case by (simp add: add_constrs_def)
next
  case (Cons t ts)
  from Cons.prems have "homdel_sum dat t Segments = Inr (homdel_expr dat Segments t)"
    by (simp add: homdel_sum_total)
  moreover from Cons.prems have "\<forall>t\<in>set ts. \<forall>s\<in>set Segments. dat_loc dat t s = Inr (row_at dat t s)" by simp
  note Cons.IH [OF this]
  ultimately show ?case by (simp add: add_constrs_def sample_constrs_def)
qed

lemma error_constrs_shape:
  "error_constrs cfg Samples Segments m =
     m\<lparr>vars := vars m @ term_vars cfg Samples Segments,
       constrs := constrs m @ built_error_constrs cfg Samples Segments\<rparr>"
  by (simp add: error_constrs_def built_error_constrs_def term_vars_def add_constrs_def
      add_vars_def new_model_def)

lemma set_objectives_shape:
  "objectives m = [] \<Longrightarrow>
   set_objectives cfg m = m\<lparr>objectives := built_objectives cfg, ModelSense := MAXIMIZE\<rparr>"
  by (simp add: set_objectives_def built_objectives_def setObjectiveN_def new_model_def)

lemma cells_present_iff:
  "cells_present dat Samples Segments =
     (\<forall>t\<in>set Samples. \<forall>s\<in>set Segments. dat_loc dat t s = Inr (row_at dat t s))"
  by (simp add: cells_present_def list_all_iff)

lemma build_Inr:
  assumes b: "CNAlign_build license dat0 cfg = Inr m"
  shows "m = built_model cfg (map recode_BAF dat0) (unique (map sample dat0))
               (unique (map segment dat0)) \<and>
         succeeds (read_license license) \<and> max_purity cfg \<noteq> 0 \<and> min_purity cfg \<noteq> 0 \<and>
         unique (map sample dat0) \<noteq> [] \<and>
         cells_present (map recode_BAF dat0) (unique (map sample dat0)) (unique (map segment dat0))"
proof -
  let ?S = "unique (map sample dat0)" and ?G = "unique (map segment dat0)"
  let ?dat = "map recode_BAF dat0"
  let ?m4 = "add_vars [n_clonal_var ?G]
     (add_constrs [Constr (\<lambda>a. a avg_ploidy) EQUAL
                    (\<lambda>a. (\<Sum>t\<leftarrow>?S. a (pl t)) / real (length ?S))]
       (add_vars (z_vars cfg ?S @ sample_vars cfg ?S ?G)
         (add_vars (tcn_vars ?S ?G @ mcn_vars ?S ?G @ combined_vars ?S ?G @ pl_vars cfg ?S)
           (new_model\<lparr>PoolSolutions := sol_count cfg\<rparr>))))"
  from b obtain params where lic: "read_license license = Inr params"
    by (cases "read_license license") (simp_all add: CNAlign_build_def)
  have pur: "\<not> (max_purity cfg = 0 \<or> min_purity cfg = 0)"
  proof
    assume "max_purity cfg = 0 \<or> min_purity cfg = 0"
    with b lic show False by (simp add: CNAlign_build_def Let_def)
  qed
  have ne: "?S \<noteq> []"
  proof
    assume "?S = []"
    with b lic pur show False by (simp add: CNAlign_build_def Let_def)
  qed
  from b lic pur ne have b': "(case cell_loop ?dat cfg ?S (List.product ?G ?S) ?m4 of
       Inl e \<Rightarrow> Inl e
     | Inr m5 \<Rightarrow>
         (case sample_loop ?dat ?G ?S (add_constrs (map (allmatch_constr cfg ?S) ?G) m5) of
            Inl e \<Rightarrow> Inl e
          | Inr m6 \<Rightarrow>
              Inr (set_objectives cfg (error_constrs cfg ?S ?G
                (add_constrs [Constr (\<lambda>a. a n_clonal) EQUAL (\<lambda>a. \<Sum>s\<leftarrow>?G. a (allmatch s))] m6))))) = Inr m"
    by (simp add: CNAlign_build_def Let_def)
  then obtain m5 where m5: "cell_loop ?dat cfg ?S (List.product ?G ?S) ?m4 = Inr m5"
    by (cases "cell_loop ?dat cfg ?S (List.product ?G ?S) ?m4") simp_all
  with b' have b'': "(case sample_loop ?dat ?G ?S (add_constrs (map (allmatch_constr cfg ?S) ?G) m5) of
            Inl e \<Rightarrow> Inl e
          | Inr m6 \<Rightarrow>
              Inr (set_objectives cfg (error_constrs cfg ?S ?G
                (add_constrs [Constr (\<lambda>a. a n_clonal) EQUAL (\<lambda>a. \<Sum>s\<leftarrow>?G. a (allmatch s))] m6)))) = Inr m"
    by simp
  then obtain m6 where
    m6: "sample_loop ?dat ?G ?S (add_constrs (map (allmatch_constr cfg ?S) ?G) m5) = Inr m6"
    by (cases "sample_loop ?dat ?G ?S (add_constrs (map (allmatch_constr cfg ?S) ?G) m5)") simp_all
  with b'' have m: "m = set_objectives cfg (error_constrs cfg ?S ?G
              (add_constrs [Constr (\<lambda>a. a n_clonal) EQUAL (\<lambda>a. \<Sum>s\<leftarrow>?G. a (allmatch s))] m6))"
    by simp
  from cell_loop_Inr [OF m5] have c5: "m5 = add_constrs
      (concat (map (\<lambda>(s, t). cell_constrs cfg ?S t s (row_at ?dat t s)) (List.product ?G ?S))) ?m4"
    and present: "\<forall>(s, t)\<in>set (List.product ?G ?S). dat_loc ?dat t s = Inr (row_at ?dat t s)"
    by blast+
  from sample_loop_Inr [OF m6] have c6: "m6 = add_constrs (concat (map (sample_constrs ?dat ?G) ?S))
      (add_constrs (map (allmatch_constr cfg ?S) ?G) m5)" .
  from present have cp: "cells_present ?dat ?S ?G"
    by (auto simp: cells_present_iff)
  have "m = built_model cfg ?dat ?S ?G"
    unfolding m c6 c5 error_constrs_shape
    by (simp add: set_objectives_shape built_model_def built_vars_def built_constrs_def add_constrs_def add_vars_def
        new_model_def pl_avg_constr_def n_clonal_constr_def)
  with lic pur ne cp show ?thesis by (simp add: succeeds_def)
qed

lemma build_total:
  assumes "succeeds (read_license license)" "max_purity cfg \<noteq> 0" "min_purity cfg \<noteq> 0"
    "unique (map sample dat0) \<noteq> []"
    "cells_present (map recode_BAF dat0) (unique (map sample dat0)) (unique (map segment dat0))"
  shows "CNAlign_build license dat0 cfg =
     Inr (built_model cfg (map recode_BAF dat0) (unique (map sample dat0)) (unique (map segment dat0)))"
proof -
  let ?S = "unique (map sample dat0)" and ?G = "unique (map segment dat0)"
  let ?dat = "map recode_BAF dat0"
  from assms(5) have c: "\<forall>(s, t)\<in>set (List.product ?G ?S). dat_loc ?dat t s = Inr (row_at ?dat t s)"
    by (auto simp: cells_present_iff)
  from assms(5) have d: "\<forall>t\<in>set ?S. \<forall>s\<in>set ?G. dat_loc ?dat t s = Inr (row_at ?dat t s)"
    by (simp add: cells_present_iff)
  from assms(1) obtain params where lic: "read_license license = Inr params"
    by (cases "read_license license") (auto simp: succeeds_def)
  show ?thesis
    using assms(2,3,4)
    by (simp add: CNAlign_build_def lic Let_def cell_loop_total [OF c] sample_loop_total [OF d]
        set_objectives_shape error_constrs_shape
        built_model_def built_vars_def built_constrs_def add_constrs_def add_vars_def
        new_model_def pl_avg_constr_def n_clonal_constr_def)
qed

section \<open>What a built model demands\<close>

lemma set_unique: "set (unique xs) = set xs"
  by (simp add: unique_def)

lemma distinct_unique: "distinct (unique xs)"
  by (simp add: unique_def)



lemma sat_built_model:
  "sat (built_model cfg dat Samples Segments) a =
     (list_all (sat_var a) (built_vars cfg Samples Segments) \<and>
      list_all (sat_constr a) (built_constrs cfg dat Samples Segments))"
  by (simp add: sat_def built_model_def)

lemma list_all_concat_map:
  "list_all P (concat (map f xs)) = list_all (\<lambda>x. list_all P (f x)) xs"
  by (induction xs) simp_all

lemma sat_cell:
  assumes "sat (built_model cfg dat Samples Segments) a" "t \<in> set Samples" "s \<in> set Segments"
  shows "list_all (sat_constr a) (cell_constrs cfg Samples t s (row_at dat t s))"
proof -
  from assms(1) have "list_all (sat_constr a)
      (concat (map (\<lambda>(s, t). cell_constrs cfg Samples t s (row_at dat t s))
                 (List.product Segments Samples)))"
    by (simp add: sat_built_model built_constrs_def)
  then have "\<forall>p\<in>set (List.product Segments Samples).
      list_all (sat_constr a) ((\<lambda>(s, t). cell_constrs cfg Samples t s (row_at dat t s)) p)"
    by (simp add: list_all_concat_map list_all_iff)
  moreover from assms(2,3) have "(s, t) \<in> set (List.product Segments Samples)" by simp
  ultimately show ?thesis by fastforce
qed

lemma sat_allmatch:
  assumes "sat (built_model cfg dat Samples Segments) a" "s \<in> set Segments"
  shows "sat_constr a (allmatch_constr cfg Samples s)"
proof -
  from assms(1) have "list_all (sat_constr a) (map (allmatch_constr cfg Samples) Segments)"
    by (simp add: sat_built_model built_constrs_def)
  with assms(2) show ?thesis by (simp add: list_all_iff)
qed

lemma sat_var_member:
  assumes "sat (built_model cfg dat Samples Segments) a" "d \<in> set (built_vars cfg Samples Segments)"
  shows "sat_var a d"
  using assms by (simp add: sat_built_model list_all_iff)

lemma addVars2_member:
  "t \<in> set Samples \<Longrightarrow> s \<in> set Segments \<Longrightarrow>
     addVar (Var2 n t s) vt l u \<in> set (addVars2 Samples Segments vt n l u)"
  by (force simp: addVars2_def)

lemma addVars1_member:
  "i \<in> set idx \<Longrightarrow> addVar (Var1 n i) vt l u \<in> set (addVars1 idx vt n l u)"
  by (simp add: addVars1_def)

lemma dat_loc_member:
  "dat_loc dat t s = Inr rw \<Longrightarrow> rw \<in> set dat \<and> sample rw = t \<and> segment rw = s"
proof -
  assume a: "dat_loc dat t s = Inr rw"
  then have "filter (\<lambda>r. sample r = t \<and> segment r = s) dat = [rw]"
    by (simp add: dat_loc_def split: list.splits)
  then have "rw \<in> set (filter (\<lambda>r. sample r = t \<and> segment r = s) dat)" by simp
  then show ?thesis by simp
qed

text \<open>What a successful build gives for one cell.\<close>

lemma build_cell:
  assumes b: "CNAlign_build license dat0 cfg = Inr m"
    and t: "t \<in> set (map sample dat0)" and s: "s \<in> set (map segment dat0)"
  shows "m = built_model cfg (map recode_BAF dat0) (unique (map sample dat0)) (unique (map segment dat0))"
    and "t \<in> set (unique (map sample dat0))" and "s \<in> set (unique (map segment dat0))"
    and "dat_loc (map recode_BAF dat0) t s = Inr (row_at (map recode_BAF dat0) t s)"
proof -
  note bi = build_Inr [OF b]
  from bi show "m = built_model cfg (map recode_BAF dat0) (unique (map sample dat0)) (unique (map segment dat0))"
    by simp
  from t show ts: "t \<in> set (unique (map sample dat0))" by (simp only: set_unique)
  from s show ss: "s \<in> set (unique (map segment dat0))" by (simp only: set_unique)
  from bi have "cells_present (map recode_BAF dat0) (unique (map sample dat0)) (unique (map segment dat0))"
    by simp
  with ts ss show "dat_loc (map recode_BAF dat0) t s = Inr (row_at (map recode_BAF dat0) t s)"
    by (simp add: cells_present_iff)
qed

lemma sat_signal:
  assumes "list_all (sat_constr a) (cell_constrs cfg Samples t s rw)"
  shows "list_all (sat_constr a) (signal_constrs t s rw)"
  using assms by (simp add: cell_constrs_def)


lemma sum_list_indicator:
  "(\<forall>x\<in>set xs. f x = (if P x then 1 else (0::real))) \<Longrightarrow>
     sum_list (map f xs) = real (length (filter P xs))"
  by (induction xs) simp_all

lemma sat_cell_parts:
  assumes "list_all (sat_constr a) (cell_constrs cfg Samples t s rw)"
  shows "a (large_enough t s) = 1 \<longrightarrow> mb rw \<ge> min_aligned_seg_mb cfg"
    and "list_all (sat_constr a) (tcn_constrs cfg Samples t s (tcn_wt_copies_of rw))"
    and "list_all (sat_constr a) (mcn_constrs cfg Samples t s (mcn_wt_copies_of rw))"
    and "list_all (sat_constr a) (combined_constrs t s)"
  using assms by (simp_all add: cell_constrs_def split: if_splits)

lemma binary_cell_var:
  assumes sat: "sat (built_model cfg dat Samples Segments) a"
    and d: "addVar x BINARY None None \<in> set (built_vars cfg Samples Segments)"
  shows "a x = 0 \<or> a x = 1"
  using sat_var_member [OF sat d] by (simp add: sat_var_def addVar_def)

lemma mblc_binary_member:
  "t \<in> set Samples \<Longrightarrow> s \<in> set Segments \<Longrightarrow>
   addVar (match_both_and_large_enough_and_cna t s) BINARY None None
     \<in> set (built_vars cfg Samples Segments)"
  by (simp add: built_vars_def combined_vars_def addVars2_member)

lemma mblc_value:
  assumes "list_all (sat_constr a) (combined_constrs t s)"
  shows "a (match_both_and_large_enough_and_cna t s) =
     (if a (match_both t s) = 1 \<and> a (large_enough t s) = 1 \<and> a (is_cna t s) = 1
      then 1 else 0)"
  using assms by (auto simp: combined_constrs_def split: if_splits)


section \<open>The example instance\<close>

lemma read_license_ex: "succeeds (read_license lic_ex)"
  by (simp add: lic_ex_def read_license_def license_field_def py_index_def py_int_def
      strip_def rstrip_def is_space_def is_digit_def succeeds_def)

lemma Samples_ex: "unique (map sample dat_ex) = [''A'', ''B'']"
  by (simp add: dat_ex_def unique_def)

lemma Segments_ex: "unique (map segment dat_ex) = [''s1'']"
  by (simp add: dat_ex_def unique_def)

lemma row_at_ex:
  "row_at (map recode_BAF dat_ex) ''A'' ''s1'' =
     \<lparr>sample = ''A'', segment = ''s1'', logR = 0, BAF = - 9, GC = 2, mb = 10\<rparr>"
  "row_at (map recode_BAF dat_ex) ''B'' ''s1'' =
     \<lparr>sample = ''B'', segment = ''s1'', logR = 0, BAF = 0, GC = 2, mb = 10\<rparr>"
  "dat_loc (map recode_BAF dat_ex) ''A'' ''s1'' = Inr (row_at (map recode_BAF dat_ex) ''A'' ''s1'')"
  "dat_loc (map recode_BAF dat_ex) ''B'' ''s1'' = Inr (row_at (map recode_BAF dat_ex) ''B'' ''s1'')"
  by (simp_all add: row_at_def dat_loc_def dat_ex_def recode_BAF_def)

lemma cells_present_ex: "cells_present (map recode_BAF dat_ex) [''A'', ''B''] [''s1'']"
  by (simp add: cells_present_def row_at_ex(3,4))

lemma build_ex: "CNAlign_build lic_ex dat_ex cfg_ex = Inr m_ex"
proof -
  have "max_purity cfg_ex \<noteq> 0" "min_purity cfg_ex \<noteq> 0" by (simp_all add: cfg_ex_def)
  with build_total [of lic_ex cfg_ex dat_ex] read_license_ex cells_present_ex
  show ?thesis by (simp add: Samples_ex Segments_ex m_ex_def)
qed

lemma sat_vars_ex:
  "list_all (sat_var (a_ex 0)) (vars m_ex)" "list_all (sat_var (a_ex 1)) (vars m_ex)"
  by (simp_all add: m_ex_def built_model_def built_vars_def tcn_vars_def mcn_vars_def
      combined_vars_def pl_vars_def z_vars_def sample_vars_def n_clonal_var_def term_vars_def
      addVars2_def addVars1_def addVar_def sat_var_def default_lb_def is_integral_def cfg_ex_def)

lemmas constr_defs = cell_constrs_def signal_constrs_def tcn_constrs_def mcn_constrs_def
  combined_constrs_def tcn_wt_copies_of_def mcn_wt_copies_of_def allmatch_constr_def
  sample_constrs_def homdel_expr_def pl_avg_constr_def n_clonal_constr_def
  built_error_constrs_def error_constrs_def add_constrs_def add_vars_def new_model_def
  tcn_term_constrs_def mcn_term_constrs_def

lemma sat_constrs_ex:
  "list_all (sat_constr (a_ex 0)) (constrs m_ex)" "list_all (sat_constr (a_ex 1)) (constrs m_ex)"
  by (simp_all add: m_ex_def built_model_def built_constrs_def constr_defs row_at_ex(1,2)
      cfg_ex_def)

lemma sat_ex: "sat m_ex (a_ex 0)" "sat m_ex (a_ex 1)"
  by (simp_all add: sat_def sat_vars_ex sat_constrs_ex)

lemma sat_tcn: "sat m_ex a_tcn"
proof -
  have "list_all (sat_var a_tcn) (vars m_ex)"
    by (simp add: a_tcn_def m_ex_def built_model_def built_vars_def tcn_vars_def mcn_vars_def
      combined_vars_def pl_vars_def z_vars_def sample_vars_def n_clonal_var_def term_vars_def
      addVars2_def addVars1_def addVar_def sat_var_def default_lb_def is_integral_def cfg_ex_def)
  moreover have "list_all (sat_constr a_tcn) (constrs m_ex)"
    by (simp add: a_tcn_def m_ex_def built_model_def built_constrs_def constr_defs row_at_ex(1,2)
      cfg_ex_def)
  ultimately show ?thesis by (simp add: sat_def)
qed

lemma sat_slack: "sat m_ex a_slack"
proof -
  have "list_all (sat_var a_slack) (vars m_ex)"
    by (simp add: m_ex_def built_model_def built_vars_def tcn_vars_def mcn_vars_def
      combined_vars_def pl_vars_def z_vars_def sample_vars_def n_clonal_var_def term_vars_def
      addVars2_def addVars1_def addVar_def sat_var_def default_lb_def is_integral_def cfg_ex_def)
  moreover have "list_all (sat_constr a_slack) (constrs m_ex)"
    by (simp add: m_ex_def built_model_def built_constrs_def constr_defs row_at_ex(1,2)
      cfg_ex_def)
  ultimately show ?thesis by (simp add: sat_def)
qed

lemma rho_ex: "rho cfg_ex = 1"
  by (simp add: cfg_ex_def)


section \<open>Bounds on the variables, and an infeasible instance\<close>

lemma signal_values:
  assumes "list_all (sat_constr a) (signal_constrs t s rw)"
  shows "a (n1 t s) = n1_of rw (a (pl t)) (a (z t))"
    and "a (mcn t s) = mcn_of rw (a (pl t)) (a (z t))"
    and "a (tcn t s) = a (n1 t s) + a (mcn t s)"
  using assms by (simp_all add: signal_constrs_def n1_of_def mcn_of_def Let_def split: if_splits)

lemma cell_var_members:
  assumes "t \<in> set Samples" "s \<in> set Segments"
  shows "addVar (n1 t s) CONTINUOUS None None \<in> set (built_vars cfg Samples Segments)"
    and "addVar (tcn t s) CONTINUOUS None None \<in> set (built_vars cfg Samples Segments)"
    and "addVar (tcn_int t s) INTEGER None None \<in> set (built_vars cfg Samples Segments)"
    and "addVar (mcn t s) CONTINUOUS None None \<in> set (built_vars cfg Samples Segments)"
    and "addVar (mcn_int t s) INTEGER None None \<in> set (built_vars cfg Samples Segments)"
  using assms by (simp_all add: built_vars_def tcn_vars_def mcn_vars_def addVars2_member)

lemma sample_var_members:
  assumes "t \<in> set Samples"
  shows "addVar (pl t) CONTINUOUS (Some (min_ploidy cfg)) (Some (max_ploidy cfg))
           \<in> set (built_vars cfg Samples Segments)"
    and "addVar (z t) CONTINUOUS (Some (1 / max_purity cfg)) (Some (1 / min_purity cfg))
           \<in> set (built_vars cfg Samples Segments)"
  using assms by (simp_all add: built_vars_def pl_vars_def z_vars_def addVars1_member)

lemma default_lb_nonneg:
  assumes "sat (built_model cfg dat Samples Segments) a"
    and "addVar x vt None u \<in> set (built_vars cfg Samples Segments)"
  shows "0 \<le> a x"
  using sat_var_member [OF assms] by (simp add: sat_var_def addVar_def default_lb_def)

lemma bounded_var:
  assumes "sat (built_model cfg dat Samples Segments) a"
    and "addVar x vt (Some l) (Some u) \<in> set (built_vars cfg Samples Segments)"
  shows "l \<le> a x \<and> a x \<le> u"
  using sat_var_member [OF assms] by (simp add: sat_var_def addVar_def)

lemma dat_loc_neg:
  "dat_loc (map recode_BAF dat_neg) ''A'' ''s1'' =
     Inr \<lparr>sample = ''A'', segment = ''s1'', logR = 0, BAF = - 9, GC = 4, mb = 10\<rparr>"
  by (simp add: dat_loc_def dat_neg_def recode_BAF_def)

lemma build_neg: "CNAlign_build lic_ex dat_neg cfg_neg = Inr m_neg"
proof -
  have S: "unique (map sample dat_neg) = [''A'']" and G: "unique (map segment dat_neg) = [''s1'']"
    by (simp_all add: dat_neg_def unique_def)
  have "max_purity cfg_neg \<noteq> 0" "min_purity cfg_neg \<noteq> 0"
    by (simp_all add: cfg_neg_def cfg_ex_def)
  moreover have "cells_present (map recode_BAF dat_neg) [''A''] [''s1'']"
    by (simp add: cells_present_def row_at_def dat_loc_neg)
  ultimately show ?thesis
    using build_total [of lic_ex cfg_neg dat_neg] read_license_ex
    by (simp add: S G m_neg_def)
qed

section \<open>The feasible set as a function of rho\<close>

lemma cell_constrs_rho:
  "cell_constrs (cfg\<lparr>rho := r\<rparr>) Samples t s rw = cell_constrs cfg Samples t s rw"
  by (simp add: cell_constrs_def tcn_constrs_def mcn_constrs_def)

lemma built_vars_rho: "built_vars (cfg\<lparr>rho := r\<rparr>) Samples Segments = built_vars cfg Samples Segments"
  by (simp add: built_vars_def pl_vars_def z_vars_def sample_vars_def term_vars_def)

lemma built_error_constrs_rho:
  "built_error_constrs (cfg\<lparr>rho := r\<rparr>) Samples Segments = built_error_constrs cfg Samples Segments"
  by (simp add: built_error_constrs_def error_constrs_def)

lemma allmatch_constr_rho:
  assumes "rho cfg \<le> r" "sat_constr a (allmatch_constr (cfg\<lparr>rho := r\<rparr>) Samples s)"
  shows "sat_constr a (allmatch_constr cfg Samples s)"
proof -
  have "rho cfg * real (length Samples) \<le> r * real (length Samples)"
    using assms(1) by (simp add: mult_right_mono)
  with assms(2) show ?thesis by (auto simp: allmatch_constr_def split: if_splits)
qed

lemma sat_built_rho:
  assumes le: "rho cfg \<le> r" and sat: "sat (built_model (cfg\<lparr>rho := r\<rparr>) dat Samples Segments) a"
  shows "sat (built_model cfg dat Samples Segments) a"
proof -
  from sat have v: "list_all (sat_var a) (built_vars cfg Samples Segments)"
    by (simp add: sat_built_model built_vars_rho)
  from sat have c: "list_all (sat_constr a) (built_constrs (cfg\<lparr>rho := r\<rparr>) dat Samples Segments)"
    by (simp add: sat_built_model)
  then have am: "list_all (sat_constr a) (map (allmatch_constr (cfg\<lparr>rho := r\<rparr>) Samples) Segments)"
    by (simp add: built_constrs_def)
  have "list_all (sat_constr a) (map (allmatch_constr cfg Samples) Segments)"
    unfolding list_all_iff
  proof
    fix x assume "x \<in> set (map (allmatch_constr cfg Samples) Segments)"
    then obtain s where s: "s \<in> set Segments" and x: "x = allmatch_constr cfg Samples s" by auto
    from am s have "sat_constr a (allmatch_constr (cfg\<lparr>rho := r\<rparr>) Samples s)"
      by (simp add: list_all_iff)
    with le x show "sat_constr a x" by (simp add: allmatch_constr_rho)
  qed
  with c have "list_all (sat_constr a) (built_constrs cfg dat Samples Segments)"
    by (simp add: built_constrs_def cell_constrs_rho built_error_constrs_rho)
  with v show ?thesis by (simp add: sat_built_model)
qed

lemma feasible_iff:
  "feasible license dat0 cfg a =
     (\<exists>m. CNAlign_build license dat0 cfg = Inr m \<and> sat m a)"
  by (simp add: feasible_def split: sum.splits)

lemma feasible_rho:
  assumes le: "rho cfg \<le> r" and f: "feasible license dat0 (cfg\<lparr>rho := r\<rparr>) a"
  shows "feasible license dat0 cfg a"
proof -
  let ?dat = "map recode_BAF dat0"
  let ?S = "unique (map sample dat0)" and ?G = "unique (map segment dat0)"
  from f obtain m' where b': "CNAlign_build license dat0 (cfg\<lparr>rho := r\<rparr>) = Inr m'"
    and sat': "sat m' a" by (auto simp: feasible_iff)
  note bi = build_Inr [OF b']
  from bi have "succeeds (read_license license)" "max_purity cfg \<noteq> 0" "min_purity cfg \<noteq> 0"
    "?S \<noteq> []" "cells_present ?dat ?S ?G" by simp_all
  then have b: "CNAlign_build license dat0 cfg = Inr (built_model cfg ?dat ?S ?G)"
    by (rule build_total)
  from bi sat' have "sat (built_model (cfg\<lparr>rho := r\<rparr>) ?dat ?S ?G) a" by simp
  with le have "sat (built_model cfg ?dat ?S ?G) a" by (rule sat_built_rho)
  with b show ?thesis by (simp add: feasible_iff)
qed

lemma feasible_n_clonal_le:
  assumes "feasible license dat0 cfg b"
  shows "b n_clonal \<le> real (length (unique (map segment dat0)))"
proof -
  let ?dat = "map recode_BAF dat0"
  let ?S = "unique (map sample dat0)" and ?G = "unique (map segment dat0)"
  from assms obtain m where b: "CNAlign_build license dat0 cfg = Inr m" and sat: "sat m b"
    by (auto simp: feasible_iff)
  from build_Inr [OF b] sat have sb: "sat (built_model cfg ?dat ?S ?G) b" by simp
  have "addVar n_clonal INTEGER (Some 0) (Some (real (length ?G))) \<in> set (built_vars cfg ?S ?G)"
    by (simp add: built_vars_def n_clonal_var_def)
  from bounded_var [OF sb this] show ?thesis by simp
qed

section \<open>The objectives of a built model\<close>


lemma objectives_built:
  "objectives (built_model cfg dat Samples Segments) =
     [\<lparr>obj_expr = (\<lambda>a. a n_clonal), obj_index = 0, obj_priority = 2, obj_weight = 1,
        obj_name = ''N clonal segs''\<rparr>,
      \<lparr>obj_expr = (\<lambda>a. - a mcn_error_clonal), obj_index = 1, obj_priority = 1,
        obj_weight = mcn_weight cfg, obj_name = ''MCN error''\<rparr>]"
  by (simp add: built_model_def built_objectives_def set_objectives_def setObjectiveN_def
      new_model_def)

lemma levels_built:
  "level_priorities (built_model cfg dat Samples Segments) = [2, 1]"
  "blended (built_model cfg dat Samples Segments) 2 = (\<lambda>a. a n_clonal)"
  "blended (built_model cfg dat Samples Segments) 1 = (\<lambda>a. mcn_weight cfg * (- a mcn_error_clonal))"
  by (simp_all add: level_priorities_def blended_def objectives_built)

lemma ModelSense_built: "ModelSense (built_model cfg dat Samples Segments) = MAXIMIZE"
  by (simp add: built_model_def)

lemma better_built:
  "better (built_model cfg dat Samples Segments) b a =
     (a n_clonal < b n_clonal \<or>
      (a n_clonal = b n_clonal \<and>
       mcn_weight cfg * (- a mcn_error_clonal) < mcn_weight cfg * (- b mcn_error_clonal)))"
  by (simp add: better_def ModelSense_built levels_built)

lemma lower_bounded_var:
  assumes "sat (built_model cfg dat Samples Segments) a"
    and "addVar x vt (Some l) u \<in> set (built_vars cfg Samples Segments)"
  shows "l \<le> a x"
  using sat_var_member [OF assms] by (simp add: sat_var_def addVar_def)

lemma error_totals_nonneg:
  assumes "sat (built_model cfg dat Samples Segments) a"
  shows "0 \<le> a tcn_error_clonal" "0 \<le> a mcn_error_clonal"
proof -
  have "addVar tcn_error_clonal CONTINUOUS (Some 0) None \<in> set (built_vars cfg Samples Segments)"
    by (simp add: built_vars_def tcn_vars_def)
  from lower_bounded_var [OF assms this] show "0 \<le> a tcn_error_clonal" .
  have "addVar mcn_error_clonal CONTINUOUS (Some 0) None \<in> set (built_vars cfg Samples Segments)"
    by (simp add: built_vars_def mcn_vars_def)
  from lower_bounded_var [OF assms this] show "0 \<le> a mcn_error_clonal" .
qed

lemma optimal_in_ex:
  assumes sa: "sat m_ex a" and n: "a n_clonal = 1" and e: "a mcn_error_clonal = 0"
  shows "optimal m_ex a"
  unfolding optimal_def
proof (intro conjI allI impI)
  show "sat m_ex a" by (rule sa)
next
  fix b assume sb: "sat m_ex b"
  then have "feasible lic_ex dat_ex cfg_ex b" by (simp add: feasible_iff build_ex)
  from feasible_n_clonal_le [OF this] have nb: "b n_clonal \<le> 1" by (simp add: Segments_ex)
  from sb have "0 \<le> b mcn_error_clonal"
    unfolding m_ex_def by (rule error_totals_nonneg)
  with nb n e show "\<not> better m_ex b a"
    unfolding m_ex_def better_built by (simp add: cfg_ex_def)
qed

section \<open>When the builder raises\<close>

















section \<open>The extractor on a built model\<close>

lemma filter_case_prod_False: "filter (\<lambda>(i, j). False) xs = []"
  by (induction xs) auto

lemma filter_case_prod_True: "filter (\<lambda>(i, j). True) xs = xs"
  by (induction xs) auto

lemmas var_group_defs = built_vars_def tcn_vars_def mcn_vars_def combined_vars_def pl_vars_def
  z_vars_def sample_vars_def n_clonal_var_def term_vars_def addVars2_def addVars1_def

lemma var_of_addVar: "var_of (addVar x vt l u) = x"
  by (simp add: addVar_def)

lemma prefix_groups:
  "vars_with_prefix (built_model cfg dat Samples Segments) ''pl['' = map pl Samples"
  "vars_with_prefix (built_model cfg dat Samples Segments) ''z['' = map z Samples"
  "vars_with_prefix (built_model cfg dat Samples Segments) ''allmatch['' = map allmatch Segments"
  "vars_with_prefix (built_model cfg dat Samples Segments) ''tcn['' =
     map (\<lambda>(t, s). tcn t s) (List.product Samples Segments)"
  "vars_with_prefix (built_model cfg dat Samples Segments) ''mcn['' =
     map (\<lambda>(t, s). mcn t s) (List.product Samples Segments)"
  by (simp_all add: vars_with_prefix_def built_model_def var_group_defs var_of_addVar
      filter_map comp_def split_def startswith_def del: List.product.simps)

lemma error_vars_by_name:
  "getVarByName (built_model cfg dat Samples Segments) ''tcn_error_clonal'' = Some tcn_error_clonal"
  "getVarByName (built_model cfg dat Samples Segments) ''mcn_error_clonal'' = Some mcn_error_clonal"
  by (simp_all add: getVarByName_def built_model_def var_group_defs var_of_addVar
      filter_map comp_def split_def del: List.product.simps)

lemma obj2_vals_built:
  "obj2_vals (built_model cfg dat Samples Segments) pool w =
     Inr (map (\<lambda>sol. - (1 - w) * sol tcn_error_clonal - w * sol mcn_error_clonal) pool)"
  by (simp add: obj2_vals_def error_vars_by_name)

lemma no_zero_purity:
  assumes "\<forall>sol\<in>set pool. \<forall>t\<in>set Samples. sol (z t) \<noteq> 0"
  shows "\<not> list_ex (\<lambda>sol. list_ex (\<lambda>x. sol x = 0) (map z Samples)) pool"
  using assms by (auto simp: list_ex_iff)

lemma round6_ex: "round6 0 = 0" "round6 1 = 1" "round6 4 = 4" "round6 (1 / 3) = 333333 / 1000000"
  by (simp_all add: round6_def rint_def Let_def)

lemma rint_near: "\<bar>of_int (rint y) - y\<bar> \<le> 1 / 2"
proof -
  have "of_int \<lfloor>y\<rfloor> \<le> y" "y < of_int \<lfloor>y\<rfloor> + 1" by linarith+
  then show ?thesis by (auto simp: rint_def Let_def)
qed

lemma rint_tie: "rint (of_int k + 1 / 2) = (if even k then k else k + 1)"
proof -
  have "\<lfloor>of_int k + (1 / 2 :: real)\<rfloor> = k" by linarith
  then show ?thesis by (simp add: rint_def Let_def)
qed

lemma round6_grid: "is_integral (round6 x * 10 ^ 6)"
  by (simp add: round6_def is_integral_def)

lemma round6_near: "\<bar>round6 x - x\<bar> \<le> 1 / (2 * 10 ^ 6)"
proof -
  have "\<bar>of_int (rint (x * 10 ^ 6)) - x * 10 ^ 6\<bar> \<le> 1 / 2" by (rule rint_near)
  then have "\<bar>(of_int (rint (x * 10 ^ 6)) - x * 10 ^ 6) / 10 ^ 6\<bar> \<le> (1 / 2) / 10 ^ 6"
    by (simp add: divide_le_cancel del: of_int_diff)
  then show ?thesis by (simp add: round6_def diff_divide_distrib)
qed

lemma round6_tie:
  "round6 ((of_int k + 1 / 2) / 10 ^ 6) = of_int (if even k then k else k + 1) / 10 ^ 6"
proof -
  have "(of_int k + 1 / 2) / 10 ^ 6 * 10 ^ 6 = (of_int k + 1 / 2 :: real)" by simp
  then have "round6 ((of_int k + 1 / 2) / 10 ^ 6) = of_int (rint (of_int k + 1 / 2)) / 10 ^ 6"
    unfolding round6_def by (simp only:)
  then show ?thesis by (simp only: rint_tie)
qed

lemma admitted_z_positive:
  assumes sat: "sat (built_model cfg dat Samples Segments) sol" and p: "0 < max_purity cfg"
    and t: "t \<in> set Samples"
  shows "0 < sol (z t)"
proof -
  note pv = sample_var_members(2) [OF t, of cfg Segments]
  from bounded_var [OF sat pv] have "1 / max_purity cfg \<le> sol (z t)" by simp
  moreover from p have "0 < 1 / max_purity cfg" by simp
  ultimately show ?thesis by linarith
qed

section \<open>The flags of a cell\<close>

lemma indicator_holds:
  "sat_constr a (GenConstrIndicator b True l sn r) = (a b = 1 \<longrightarrow> cmp sn (l a) r)"
  by simp

lemma combined_values:
  assumes "list_all (sat_constr a) (combined_constrs t s)"
  shows "a (match_both t s) =
      (if a (tcn_match_and_avg_at_int t s) = 1 \<and> a (mcn_match_and_avg_at_int t s) = 1
       then 1 else 0)"
    and "a (is_cna t s) = (if a (tcn_cna t s) = 1 \<or> a (mcn_cna t s) = 1 then 1 else 0)"
    and "a (match_both_and_large_enough t s) =
      (if a (match_both t s) = 1 \<and> a (large_enough t s) = 1 then 1 else 0)"
    and "a (match_both_and_large_enough_and_cna t s) =
      (if a (match_both_and_large_enough t s) = 1 \<and> a (is_cna t s) = 1 then 1 else 0)"
  using assms by (simp_all add: combined_constrs_def)

lemma tcn_values:
  assumes "list_all (sat_constr a) (tcn_constrs cfg Samples t s w)"
  shows "a (tcn_match t s) =
      (if a (tcn_close_to_int t s) = 1 \<and> a (tcn_close_to_avg t s) = 1 then 1 else 0)"
    and "a (tcn_match_and_avg_at_int t s) =
      (if a (tcn_match t s) = 1 \<and> a (tcn_avg_close_to_int t s) = 1 then 1 else 0)"
    and "a (tcn_cna t s) = (if a (tcn_gain t s) = 1 \<or> a (tcn_loss t s) = 1 then 1 else 0)"
    and "a (tcn_close_to_int t s) = 1 \<longrightarrow> a (tcn_int_err t s) \<le> delta_tcn_to_int cfg"
    and "a (tcn_close_to_avg t s) = 1 \<longrightarrow> a (tcn_spread t s) \<le> delta_tcn_to_avg cfg"
    and "a (tcn_avg_close_to_int t s) = 1 \<longrightarrow> a (tcn_avg_int_err t s) \<le> delta_tcnavg_to_int cfg"
    and "a (tcn_gain t s) = 1 \<longrightarrow> w + 1 \<le> a (tcn_int t s)"
    and "a (tcn_loss t s) = 1 \<longrightarrow> a (tcn_int t s) \<le> w - 1"
  using assms
  by (simp_all add: tcn_constrs_def indicator_holds del: sat_constr.simps(2))

lemma mcn_values:
  assumes "list_all (sat_constr a) (mcn_constrs cfg Samples t s w)"
  shows "a (mcn_match t s) =
      (if a (mcn_close_to_int t s) = 1 \<and> a (mcn_close_to_avg t s) = 1 then 1 else 0)"
    and "a (mcn_match_and_avg_at_int t s) =
      (if a (mcn_match t s) = 1 \<and> a (mcn_avg_close_to_int t s) = 1 then 1 else 0)"
    and "a (mcn_cna t s) = (if a (mcn_gain t s) = 1 \<or> a (mcn_loss t s) = 1 then 1 else 0)"
    and "a (mcn_close_to_int t s) = 1 \<longrightarrow> a (mcn_int_err t s) \<le> delta_mcn_to_int cfg"
    and "a (mcn_close_to_avg t s) = 1 \<longrightarrow> a (mcn_spread t s) \<le> delta_mcn_to_avg cfg"
    and "a (mcn_avg_close_to_int t s) = 1 \<longrightarrow> a (mcn_avg_int_err t s) \<le> delta_mcnavg_to_int cfg"
    and "a (mcn_gain t s) = 1 \<longrightarrow> w + 1 \<le> a (mcn_int t s)"
    and "a (mcn_loss t s) = 1 \<longrightarrow> a (mcn_int t s) \<le> w - 1"
  using assms
  by (simp_all add: mcn_constrs_def indicator_holds del: sat_constr.simps(2))

section \<open>The claims about the builder and the extractor\<close>

text \<open>
  Claim C1: in every assignment the built model admits, every (sample, segment) cell has
  \<open>tcn = n1 + mcn\<close>, and \<open>n1\<close> and \<open>mcn\<close> equal the stated formulas in the
  sample's ploidy \<open>pl\<close> and inverse purity \<open>z\<close>, with \<open>c = 2 powr logR\<close> and
  \<open>c1 = 2 powr (logR + 1)\<close>: the BAF formulas when the (recoded) BAF is not -9, and
  \<open>n1 = 2*z*c + c*pl - 2*c - g*z + g\<close>, \<open>mcn = 0\<close> when it is.
\<close>

theorem signal_relation_enforced:
  assumes b: "CNAlign_build license dat0 cfg = Inr m" and sat: "sat m a"
    and t: "t \<in> set (map sample dat0)" and s: "s \<in> set (map segment dat0)"
  shows "\<exists>rw. dat_loc (map recode_BAF dat0) t s = Inr rw \<and>
     a (tcn t s) = a (n1 t s) + a (mcn t s) \<and>
     (BAF rw \<noteq> - 9 \<longrightarrow>
        a (n1 t s) = - BAF rw * 2 powr logR rw * a (pl t) + BAF rw * 2 powr (logR rw + 1)
            - BAF rw * 2 powr (logR rw + 1) * a (z t) + 2 powr logR rw * a (pl t)
            - 2 powr (logR rw + 1) + 2 powr (logR rw + 1) * a (z t) + GC rw - GC rw * a (z t)
            - 1 + a (z t) \<and>
        a (mcn t s) = BAF rw * 2 powr logR rw * a (pl t) - BAF rw * 2 powr (logR rw + 1)
            + BAF rw * 2 powr (logR rw + 1) * a (z t) + 1 - a (z t)) \<and>
     (BAF rw = - 9 \<longrightarrow>
        a (n1 t s) = 2 * a (z t) * 2 powr logR rw + 2 powr logR rw * a (pl t)
            - 2 * 2 powr logR rw - GC rw * a (z t) + GC rw \<and>
        a (mcn t s) = 0)"
proof -
  let ?dat = "map recode_BAF dat0"
  let ?rw = "row_at ?dat t s"
  note c = build_cell [OF b t s]
  from sat c(1) have "sat (built_model cfg ?dat (unique (map sample dat0)) (unique (map segment dat0))) a"
    by simp
  then have "list_all (sat_constr a) (cell_constrs cfg (unique (map sample dat0)) t s ?rw)"
    using c(2,3) by (rule sat_cell)
  then have sig: "list_all (sat_constr a) (signal_constrs t s ?rw)" by (rule sat_signal)
  have "a (tcn t s) = a (n1 t s) + a (mcn t s)"
    using sig by (simp add: signal_constrs_def Let_def)
  moreover have "BAF ?rw \<noteq> - 9 \<longrightarrow>
        a (n1 t s) = - BAF ?rw * 2 powr logR ?rw * a (pl t) + BAF ?rw * 2 powr (logR ?rw + 1)
            - BAF ?rw * 2 powr (logR ?rw + 1) * a (z t) + 2 powr logR ?rw * a (pl t)
            - 2 powr (logR ?rw + 1) + 2 powr (logR ?rw + 1) * a (z t) + GC ?rw - GC ?rw * a (z t)
            - 1 + a (z t) \<and>
        a (mcn t s) = BAF ?rw * 2 powr logR ?rw * a (pl t) - BAF ?rw * 2 powr (logR ?rw + 1)
            + BAF ?rw * 2 powr (logR ?rw + 1) * a (z t) + 1 - a (z t)"
  proof
    assume "BAF ?rw \<noteq> - 9"
    with sig show "a (n1 t s) = - BAF ?rw * 2 powr logR ?rw * a (pl t) + BAF ?rw * 2 powr (logR ?rw + 1)
            - BAF ?rw * 2 powr (logR ?rw + 1) * a (z t) + 2 powr logR ?rw * a (pl t)
            - 2 powr (logR ?rw + 1) + 2 powr (logR ?rw + 1) * a (z t) + GC ?rw - GC ?rw * a (z t)
            - 1 + a (z t) \<and>
        a (mcn t s) = BAF ?rw * 2 powr logR ?rw * a (pl t) - BAF ?rw * 2 powr (logR ?rw + 1)
            + BAF ?rw * 2 powr (logR ?rw + 1) * a (z t) + 1 - a (z t)"
      by (simp add: signal_constrs_def Let_def)
  qed
  moreover have "BAF ?rw = - 9 \<longrightarrow>
        a (n1 t s) = 2 * a (z t) * 2 powr logR ?rw + 2 powr logR ?rw * a (pl t)
            - 2 * 2 powr logR ?rw - GC ?rw * a (z t) + GC ?rw \<and>
        a (mcn t s) = 0"
  proof
    assume "BAF ?rw = - 9"
    with sig show "a (n1 t s) = 2 * a (z t) * 2 powr logR ?rw + 2 powr logR ?rw * a (pl t)
            - 2 * 2 powr logR ?rw - GC ?rw * a (z t) + GC ?rw \<and>
        a (mcn t s) = 0"
      by (simp add: signal_constrs_def Let_def)
  qed
  ultimately show ?thesis using c(4) by blast
qed

text \<open>Witness for C1: both branches, on the two cells of the example.\<close>

theorem signal_relation_enforced_witness:
  "CNAlign_build lic_ex dat_ex cfg_ex = Inr m_ex \<and> sat m_ex (a_ex 1) \<and>
   dat_loc (map recode_BAF dat_ex) ''A'' ''s1'' =
     Inr \<lparr>sample = ''A'', segment = ''s1'', logR = 0, BAF = - 9, GC = 2, mb = 10\<rparr> \<and>
   dat_loc (map recode_BAF dat_ex) ''B'' ''s1'' =
     Inr \<lparr>sample = ''B'', segment = ''s1'', logR = 0, BAF = 0, GC = 2, mb = 10\<rparr> \<and>
   a_ex 1 (tcn ''A'' ''s1'') = a_ex 1 (n1 ''A'' ''s1'') + a_ex 1 (mcn ''A'' ''s1'') \<and>
   a_ex 1 (n1 ''A'' ''s1'') = 4 \<and> a_ex 1 (mcn ''A'' ''s1'') = 0 \<and>
   a_ex 1 (tcn ''B'' ''s1'') = a_ex 1 (n1 ''B'' ''s1'') + a_ex 1 (mcn ''B'' ''s1'')"
  using signal_relation_enforced [OF build_ex sat_ex(2), of "''A''" "''s1''"]
    signal_relation_enforced [OF build_ex sat_ex(2), of "''B''" "''s1''"]
  by (simp add: build_ex sat_ex row_at_ex [symmetric])

text \<open>
  Claim C2, as the code has it. In every assignment the built model admits, at every
  cell: a segment's \<open>allmatch\<close> being 1 implies that the number of samples whose cell has
  \<open>match_both\<close>, \<open>large_enough\<close> and \<open>is_cna\<close> all set is at least \<open>rho\<close> times the
  number of samples (the sum in the constraint is that number); the flags defined by AND
  and OR constraints (\<open>match_both_and_large_enough_and_cna\<close>,
  \<open>match_both_and_large_enough\<close>, \<open>match_both\<close>, \<open>tcn_match_and_avg_at_int\<close>,
  \<open>mcn_match_and_avg_at_int\<close>, \<open>tcn_match\<close>, \<open>mcn_match\<close>, \<open>tcn_cna\<close>, \<open>mcn_cna\<close>,
  \<open>is_cna\<close>) are exactly the AND or OR of their input flags; and for the close-to-integer,
  close-to-average, average-close-to-integer, gain, loss and \<open>large_enough\<close> flags, a
  flag that is 1 implies its condition.
\<close>

theorem flags_enforced:
  assumes b: "CNAlign_build license dat0 cfg = Inr m" and sat: "sat m a"
    and t: "t \<in> set (map sample dat0)" and s: "s \<in> set (map segment dat0)"
  shows "\<exists>rw. dat_loc (map recode_BAF dat0) t s = Inr rw \<and>
     (a (allmatch s) = 1 \<longrightarrow>
        rho cfg * real (length (unique (map sample dat0)))
          \<le> (\<Sum>t'\<leftarrow>unique (map sample dat0). a (match_both_and_large_enough_and_cna t' s))) \<and>
     (\<Sum>t'\<leftarrow>unique (map sample dat0). a (match_both_and_large_enough_and_cna t' s)) =
        real (length (filter (\<lambda>t'. a (match_both t' s) = 1 \<and> a (large_enough t' s) = 1 \<and>
                                    a (is_cna t' s) = 1) (unique (map sample dat0)))) \<and>
     a (match_both_and_large_enough_and_cna t s) =
       (if a (match_both t s) = 1 \<and> a (large_enough t s) = 1 \<and> a (is_cna t s) = 1
        then 1 else 0) \<and>
     a (match_both_and_large_enough_and_cna t s) =
       (if a (match_both_and_large_enough t s) = 1 \<and> a (is_cna t s) = 1 then 1 else 0) \<and>
     a (match_both_and_large_enough t s) =
       (if a (match_both t s) = 1 \<and> a (large_enough t s) = 1 then 1 else 0) \<and>
     a (match_both t s) =
       (if a (tcn_match_and_avg_at_int t s) = 1 \<and> a (mcn_match_and_avg_at_int t s) = 1
        then 1 else 0) \<and>
     a (tcn_match_and_avg_at_int t s) =
       (if a (tcn_match t s) = 1 \<and> a (tcn_avg_close_to_int t s) = 1 then 1 else 0) \<and>
     a (mcn_match_and_avg_at_int t s) =
       (if a (mcn_match t s) = 1 \<and> a (mcn_avg_close_to_int t s) = 1 then 1 else 0) \<and>
     a (tcn_match t s) =
       (if a (tcn_close_to_int t s) = 1 \<and> a (tcn_close_to_avg t s) = 1 then 1 else 0) \<and>
     a (mcn_match t s) =
       (if a (mcn_close_to_int t s) = 1 \<and> a (mcn_close_to_avg t s) = 1 then 1 else 0) \<and>
     a (tcn_cna t s) = (if a (tcn_gain t s) = 1 \<or> a (tcn_loss t s) = 1 then 1 else 0) \<and>
     a (mcn_cna t s) = (if a (mcn_gain t s) = 1 \<or> a (mcn_loss t s) = 1 then 1 else 0) \<and>
     a (is_cna t s) = (if a (tcn_cna t s) = 1 \<or> a (mcn_cna t s) = 1 then 1 else 0) \<and>
     (a (tcn_close_to_int t s) = 1 \<longrightarrow> a (tcn_int_err t s) \<le> delta_tcn_to_int cfg) \<and>
     (a (tcn_close_to_avg t s) = 1 \<longrightarrow> a (tcn_spread t s) \<le> delta_tcn_to_avg cfg) \<and>
     (a (tcn_avg_close_to_int t s) = 1 \<longrightarrow> a (tcn_avg_int_err t s) \<le> delta_tcnavg_to_int cfg) \<and>
     (a (mcn_close_to_int t s) = 1 \<longrightarrow> a (mcn_int_err t s) \<le> delta_mcn_to_int cfg) \<and>
     (a (mcn_close_to_avg t s) = 1 \<longrightarrow> a (mcn_spread t s) \<le> delta_mcn_to_avg cfg) \<and>
     (a (mcn_avg_close_to_int t s) = 1 \<longrightarrow> a (mcn_avg_int_err t s) \<le> delta_mcnavg_to_int cfg) \<and>
     (a (tcn_gain t s) = 1 \<longrightarrow> GC rw + 1 \<le> a (tcn_int t s)) \<and>
     (a (tcn_loss t s) = 1 \<longrightarrow> a (tcn_int t s) \<le> GC rw - 1) \<and>
     (a (mcn_gain t s) = 1 \<longrightarrow> (if BAF rw \<noteq> - 9 then GC rw - 1 else 0) + 1 \<le> a (mcn_int t s)) \<and>
     (a (mcn_loss t s) = 1 \<longrightarrow> a (mcn_int t s) \<le> (if BAF rw \<noteq> - 9 then GC rw - 1 else 0) - 1) \<and>
     (a (large_enough t s) = 1 \<longrightarrow> min_aligned_seg_mb cfg \<le> mb rw)"
proof -
  let ?dat = "map recode_BAF dat0"
  let ?S = "unique (map sample dat0)" and ?G = "unique (map segment dat0)"
  let ?rw = "row_at ?dat t s"
  note c = build_cell [OF b t s]
  from sat c(1) have sb: "sat (built_model cfg ?dat ?S ?G) a" by simp
  then have cell: "list_all (sat_constr a) (cell_constrs cfg ?S t s ?rw)"
    using c(2,3) by (rule sat_cell)
  note parts = sat_cell_parts [OF cell]
  from sat_allmatch [OF sb c(3)] have am: "a (allmatch s) = 1 \<longrightarrow>
        rho cfg * real (length ?S) \<le> (\<Sum>t'\<leftarrow>?S. a (match_both_and_large_enough_and_cna t' s))"
    by (simp add: allmatch_constr_def split: if_splits)
  have "\<forall>t'\<in>set ?S. a (match_both_and_large_enough_and_cna t' s) =
      (if a (match_both t' s) = 1 \<and> a (large_enough t' s) = 1 \<and> a (is_cna t' s) = 1
       then 1 else 0)"
  proof
    fix t' assume "t' \<in> set ?S"
    with sb have "list_all (sat_constr a) (cell_constrs cfg ?S t' s (row_at ?dat t' s))"
      using c(3) by (rule sat_cell)
    then have "list_all (sat_constr a) (combined_constrs t' s)" by (rule sat_cell_parts(4))
    then show "a (match_both_and_large_enough_and_cna t' s) =
      (if a (match_both t' s) = 1 \<and> a (large_enough t' s) = 1 \<and> a (is_cna t' s) = 1
       then 1 else 0)" by (rule mblc_value)
  qed
  then have cnt: "(\<Sum>t'\<leftarrow>?S. a (match_both_and_large_enough_and_cna t' s)) =
        real (length (filter (\<lambda>t'. a (match_both t' s) = 1 \<and> a (large_enough t' s) = 1 \<and>
                                    a (is_cna t' s) = 1) ?S))"
    by (rule sum_list_indicator)
  note all3 = mblc_value [OF parts(4)]
  note cv = combined_values [OF parts(4)]
  note tv = tcn_values [OF parts(2), unfolded tcn_wt_copies_of_def]
  note mv = mcn_values [OF parts(3), unfolded mcn_wt_copies_of_def]
  show ?thesis
    apply (rule exI [of _ ?rw])
    apply (intro conjI)
    apply (rule c(4))
    apply (rule am)
    apply (rule cnt)
    apply (rule all3)
    apply (rule cv(4))
    apply (rule cv(3))
    apply (rule cv(1))
    apply (rule tv(2))
    apply (rule mv(2))
    apply (rule tv(1))
    apply (rule mv(1))
    apply (rule tv(3))
    apply (rule mv(3))
    apply (rule cv(2))
    apply (rule tv(4))
    apply (rule tv(5))
    apply (rule tv(6))
    apply (rule mv(4))
    apply (rule mv(5))
    apply (rule mv(6))
    apply (rule tv(7))
    apply (rule tv(8))
    apply (rule mv(7))
    apply (rule mv(8))
    apply (rule parts(1))
    done
qed

text \<open>Witness for C2: the example with \<open>allmatch\<close> set.\<close>

theorem flags_enforced_witness:
  "CNAlign_build lic_ex dat_ex cfg_ex = Inr m_ex \<and> sat m_ex (a_ex 1) \<and>
   a_ex 1 (allmatch ''s1'') = 1 \<and>
   rho cfg_ex * real (length [''A'', ''B''])
     \<le> (\<Sum>t'\<leftarrow>[''A'', ''B'']. a_ex 1 (match_both_and_large_enough_and_cna t' ''s1'')) \<and>
   a_ex 1 (match_both_and_large_enough_and_cna ''A'' ''s1'') = 1 \<and>
   a_ex 1 (tcn_match ''A'' ''s1'') = 1 \<and> a_ex 1 (tcn_cna ''A'' ''s1'') = 1 \<and>
   a_ex 1 (tcn_gain ''A'' ''s1'') = 1 \<and> a_ex 1 (tcn_int ''A'' ''s1'') \<ge> 2 + 1"
proof -
  have tA: "''A'' \<in> set (map sample dat_ex)" and sA: "''s1'' \<in> set (map segment dat_ex)"
    by (simp_all add: dat_ex_def)
  from flags_enforced [OF build_ex sat_ex(2) tA sA]
  have "a_ex 1 (allmatch ''s1'') = 1 \<longrightarrow>
     rho cfg_ex * real (length (unique (map sample dat_ex)))
       \<le> (\<Sum>t'\<leftarrow>unique (map sample dat_ex). a_ex 1 (match_both_and_large_enough_and_cna t' ''s1''))"
    by blast
  then show ?thesis by (simp add: build_ex sat_ex Samples_ex rho_ex)
qed

text \<open>
  Counterexample to C2 as stated. The example model admits an assignment in which both
  samples match at the segment (the count 2 reaches \<open>rho\<close> times the number of samples)
  and \<open>allmatch\<close> is nevertheless 0. It also admits an assignment in which every flag is 0
  although the deviations are within their thresholds, the rounded TCN of sample A is a
  gain, the rounded MCN of sample B is a loss and the segment is long enough: the
  indicator flags are not functions of their conditions.
\<close>

theorem allmatch_not_forced:
  "CNAlign_build lic_ex dat_ex cfg_ex = Inr m_ex \<and> sat m_ex (a_ex 0) \<and>
   length (filter (\<lambda>t'. a_ex 0 (match_both t' ''s1'') = 1 \<and> a_ex 0 (large_enough t' ''s1'') = 1 \<and>
                        a_ex 0 (is_cna t' ''s1'') = 1) (unique (map sample dat_ex))) = 2 \<and>
   rho cfg_ex * real (length (unique (map sample dat_ex))) = 2 \<and>
   a_ex 0 (allmatch ''s1'') = 0 \<and>
   sat m_ex a_slack \<and>
   a_slack (tcn_int_err ''A'' ''s1'') \<le> delta_tcn_to_int cfg_ex \<and>
   a_slack (tcn_close_to_int ''A'' ''s1'') = 0 \<and>
   a_slack (tcn_spread ''A'' ''s1'') \<le> delta_tcn_to_avg cfg_ex \<and>
   a_slack (tcn_close_to_avg ''A'' ''s1'') = 0 \<and>
   a_slack (tcn_avg_int_err ''A'' ''s1'') \<le> delta_tcnavg_to_int cfg_ex \<and>
   a_slack (tcn_avg_close_to_int ''A'' ''s1'') = 0 \<and>
   a_slack (mcn_int_err ''A'' ''s1'') \<le> delta_mcn_to_int cfg_ex \<and>
   a_slack (mcn_close_to_int ''A'' ''s1'') = 0 \<and>
   a_slack (mcn_spread ''A'' ''s1'') \<le> delta_mcn_to_avg cfg_ex \<and>
   a_slack (mcn_close_to_avg ''A'' ''s1'') = 0 \<and>
   a_slack (mcn_avg_int_err ''A'' ''s1'') \<le> delta_mcnavg_to_int cfg_ex \<and>
   a_slack (mcn_avg_close_to_int ''A'' ''s1'') = 0 \<and>
   GC (row_at (map recode_BAF dat_ex) ''A'' ''s1'') + 1 \<le> a_slack (tcn_int ''A'' ''s1'') \<and>
   a_slack (tcn_gain ''A'' ''s1'') = 0 \<and>
   BAF (row_at (map recode_BAF dat_ex) ''B'' ''s1'') \<noteq> - 9 \<and>
   a_slack (mcn_int ''B'' ''s1'') \<le> GC (row_at (map recode_BAF dat_ex) ''B'' ''s1'') - 1 - 1 \<and>
   a_slack (mcn_loss ''B'' ''s1'') = 0 \<and>
   min_aligned_seg_mb cfg_ex \<le> mb (row_at (map recode_BAF dat_ex) ''A'' ''s1'') \<and>
   a_slack (large_enough ''A'' ''s1'') = 0"
proof -
  have th: "delta_tcn_to_int cfg_ex = 1 / 10" "delta_tcn_to_avg cfg_ex = 1 / 10"
    "delta_tcnavg_to_int cfg_ex = 1 / 10" "delta_mcn_to_int cfg_ex = 1 / 10"
    "delta_mcn_to_avg cfg_ex = 1 / 10" "delta_mcnavg_to_int cfg_ex = 1 / 10"
    "min_aligned_seg_mb cfg_ex = 5"
    by (simp_all add: cfg_ex_def)
  show ?thesis
    by (simp add: build_ex sat_ex sat_slack Samples_ex rho_ex th row_at_ex(1,2))
qed

text \<open>
  Claim C9: \<open>n1\<close>, \<open>tcn\<close>, \<open>mcn\<close>, \<open>tcn_int\<close> and \<open>mcn_int\<close> are declared without a
  lower bound and so carry the solver's default lower bound 0: in every assignment the
  built model admits they are nonnegative at every cell, while \<open>n1\<close> and \<open>mcn\<close> equal
  the signal algebra at the sample's ploidy and inverse purity. Hence a cell whose signal
  algebra gives a negative \<open>n1\<close>, \<open>mcn\<close> or \<open>tcn\<close> for every ploidy and inverse purity
  within the declared bounds leaves the model with no admissible assignment at all.
\<close>

theorem copy_numbers_nonnegative:
  assumes b: "CNAlign_build license dat0 cfg = Inr m"
    and t: "t \<in> set (map sample dat0)" and s: "s \<in> set (map segment dat0)"
  shows "\<exists>rw. dat_loc (map recode_BAF dat0) t s = Inr rw \<and>
     (sat m a \<longrightarrow>
        0 \<le> a (n1 t s) \<and> 0 \<le> a (tcn t s) \<and> 0 \<le> a (mcn t s) \<and>
        0 \<le> a (tcn_int t s) \<and> 0 \<le> a (mcn_int t s) \<and>
        a (n1 t s) = n1_of rw (a (pl t)) (a (z t)) \<and>
        a (mcn t s) = mcn_of rw (a (pl t)) (a (z t)) \<and>
        a (tcn t s) = n1_of rw (a (pl t)) (a (z t)) + mcn_of rw (a (pl t)) (a (z t))) \<and>
     ((\<forall>p q. min_ploidy cfg \<le> p \<and> p \<le> max_ploidy cfg \<and>
             1 / max_purity cfg \<le> q \<and> q \<le> 1 / min_purity cfg \<longrightarrow>
             n1_of rw p q < 0 \<or> mcn_of rw p q < 0 \<or> n1_of rw p q + mcn_of rw p q < 0)
        \<longrightarrow> \<not> sat m a)"
proof -
  let ?dat = "map recode_BAF dat0"
  let ?S = "unique (map sample dat0)" and ?G = "unique (map segment dat0)"
  let ?rw = "row_at ?dat t s"
  note c = build_cell [OF b t s]
  have main: "0 \<le> a (n1 t s) \<and> 0 \<le> a (tcn t s) \<and> 0 \<le> a (mcn t s) \<and>
        0 \<le> a (tcn_int t s) \<and> 0 \<le> a (mcn_int t s) \<and>
        a (n1 t s) = n1_of ?rw (a (pl t)) (a (z t)) \<and>
        a (mcn t s) = mcn_of ?rw (a (pl t)) (a (z t)) \<and>
        a (tcn t s) = n1_of ?rw (a (pl t)) (a (z t)) + mcn_of ?rw (a (pl t)) (a (z t)) \<and>
        min_ploidy cfg \<le> a (pl t) \<and> a (pl t) \<le> max_ploidy cfg \<and>
        1 / max_purity cfg \<le> a (z t) \<and> a (z t) \<le> 1 / min_purity cfg" if sat: "sat m a"
  proof -
    from sat c(1) have sb: "sat (built_model cfg ?dat ?S ?G) a" by simp
    then have "list_all (sat_constr a) (cell_constrs cfg ?S t s ?rw)"
      using c(2,3) by (rule sat_cell)
    then have "list_all (sat_constr a) (signal_constrs t s ?rw)" by (rule sat_signal)
    note sv = signal_values [OF this]
    note cv = cell_var_members [OF c(2,3), of cfg]
    note nn = cv [THEN default_lb_nonneg [OF sb]]
    note pv = sample_var_members [OF c(2), of cfg ?G]
    note bb = pv [THEN bounded_var [OF sb]]
    from sv nn bb show ?thesis by simp
  qed
  have neg: "\<not> sat m a"
    if forced: "\<forall>p q. min_ploidy cfg \<le> p \<and> p \<le> max_ploidy cfg \<and>
             1 / max_purity cfg \<le> q \<and> q \<le> 1 / min_purity cfg \<longrightarrow>
             n1_of ?rw p q < 0 \<or> mcn_of ?rw p q < 0 \<or> n1_of ?rw p q + mcn_of ?rw p q < 0"
  proof
    assume "sat m a"
    note m = main [OF this]
    from m have "min_ploidy cfg \<le> a (pl t) \<and> a (pl t) \<le> max_ploidy cfg \<and>
        1 / max_purity cfg \<le> a (z t) \<and> a (z t) \<le> 1 / min_purity cfg" by simp
    with forced have "n1_of ?rw (a (pl t)) (a (z t)) < 0 \<or> mcn_of ?rw (a (pl t)) (a (z t)) < 0 \<or>
        n1_of ?rw (a (pl t)) (a (z t)) + mcn_of ?rw (a (pl t)) (a (z t)) < 0" by blast
    with m show False by linarith
  qed
  from c(4) main neg show ?thesis by blast
qed

text \<open>
  Witness for C9: the example is feasible with nonnegative copy numbers; a cell with four
  germline copies, \<open>logR = 0\<close> and purity at most 1/5 forces \<open>n1 = pl + 2 - 2*z < 0\<close>, and
  the model built from it admits no assignment.
\<close>

theorem copy_numbers_nonnegative_witness:
  "CNAlign_build lic_ex dat_ex cfg_ex = Inr m_ex \<and> sat m_ex (a_ex 1) \<and>
   0 \<le> a_ex 1 (n1 ''B'' ''s1'') \<and> 0 \<le> a_ex 1 (tcn ''B'' ''s1'') \<and>
   0 \<le> a_ex 1 (mcn ''B'' ''s1'') \<and>
   CNAlign_build lic_ex dat_neg cfg_neg = Inr m_neg \<and> \<not> sat m_neg (a_ex 1)"
proof -
  let ?row = "\<lparr>sample = ''A'', segment = ''s1'', logR = 0, BAF = - 9, GC = 4, mb = 10\<rparr> :: real row"
  have pos: "0 \<le> a_ex 1 (n1 ''B'' ''s1'') \<and> 0 \<le> a_ex 1 (tcn ''B'' ''s1'') \<and>
      0 \<le> a_ex 1 (mcn ''B'' ''s1'')"
    using copy_numbers_nonnegative [OF build_ex, of "''B''" "''s1''" "a_ex 1"] sat_ex(2)
    by (simp add: dat_ex_def)
  have forced: "\<forall>p q. min_ploidy cfg_neg \<le> p \<and> p \<le> max_ploidy cfg_neg \<and>
      1 / max_purity cfg_neg \<le> q \<and> q \<le> 1 / min_purity cfg_neg \<longrightarrow>
      n1_of ?row p q < 0 \<or> mcn_of ?row p q < 0 \<or> n1_of ?row p q + mcn_of ?row p q < 0"
    by (simp add: cfg_neg_def cfg_ex_def n1_of_def mcn_of_def)
  have tA: "''A'' \<in> set (map sample dat_neg)" and sA: "''s1'' \<in> set (map segment dat_neg)"
    by (simp_all add: dat_neg_def)
  from copy_numbers_nonnegative [OF build_neg tA sA, of "a_ex 1"]
  obtain rw where r: "dat_loc (map recode_BAF dat_neg) ''A'' ''s1'' = Inr rw"
    and imp: "(\<forall>p q. min_ploidy cfg_neg \<le> p \<and> p \<le> max_ploidy cfg_neg \<and>
      1 / max_purity cfg_neg \<le> q \<and> q \<le> 1 / min_purity cfg_neg \<longrightarrow>
      n1_of rw p q < 0 \<or> mcn_of rw p q < 0 \<or> n1_of rw p q + mcn_of rw p q < 0)
      \<longrightarrow> \<not> sat m_neg (a_ex 1)"
    by blast
  from r have "rw = ?row" by (simp add: dat_loc_neg)
  with imp forced have "\<not> sat m_neg (a_ex 1)" by blast
  with pos show ?thesis by (simp add: build_ex build_neg sat_ex)
qed

text \<open>
  Claim C7: with every other input fixed, an assignment admitted under the larger
  \<open>rho\<close> is admitted under the smaller one (only the right-hand side of the
  \<open>allmatch\<close> constraints depends on \<open>rho\<close>), so no value of \<open>n_clonal\<close> reached
  under the larger \<open>rho\<close> exceeds the optimum under the smaller: the optimal
  \<open>n_clonal\<close> does not increase when \<open>rho\<close> is raised, from 0.5 to 1.0 in particular.
\<close>

theorem n_clonal_monotone_in_rho:
  assumes "rho cfg \<le> r"
  shows "(feasible license dat0 (cfg\<lparr>rho := r\<rparr>) a' \<longrightarrow> feasible license dat0 cfg a') \<and>
     (feasible license dat0 (cfg\<lparr>rho := r\<rparr>) a' \<and> feasible license dat0 cfg a \<and>
      (\<forall>b. feasible license dat0 cfg b \<longrightarrow> b n_clonal \<le> a n_clonal)
        \<longrightarrow> a' n_clonal \<le> a n_clonal)"
  using feasible_rho [OF assms] by blast

text \<open>
  Witness for C7: the example, built with \<open>rho = 1\<close>, against the same input with
  \<open>rho = 0.5\<close>, where \<open>n_clonal = 1\<close> is optimal.
\<close>

theorem n_clonal_monotone_in_rho_witness:
  "rho (cfg_ex\<lparr>rho := 1 / 2\<rparr>) \<le> 1 \<and> feasible lic_ex dat_ex cfg_ex (a_ex 0) \<and>
   feasible lic_ex dat_ex (cfg_ex\<lparr>rho := 1 / 2\<rparr>) (a_ex 0) \<and>
   feasible lic_ex dat_ex (cfg_ex\<lparr>rho := 1 / 2\<rparr>) (a_ex 1) \<and>
   a_ex 0 n_clonal \<le> a_ex 1 n_clonal"
proof -
  have le: "rho (cfg_ex\<lparr>rho := 1 / 2\<rparr>) \<le> 1" by simp
  have upd: "cfg_ex\<lparr>rho := 1 / 2, rho := 1\<rparr> = cfg_ex" by (simp add: cfg_ex_def)
  have f0: "feasible lic_ex dat_ex cfg_ex (a_ex 0)" and f1: "feasible lic_ex dat_ex cfg_ex (a_ex 1)"
    by (simp_all add: feasible_iff build_ex sat_ex)
  have h0: "feasible lic_ex dat_ex (cfg_ex\<lparr>rho := 1 / 2\<rparr>) (a_ex 0)"
    using n_clonal_monotone_in_rho [OF le, of lic_ex dat_ex "a_ex 0"] f0 by (simp add: upd)
  have h1: "feasible lic_ex dat_ex (cfg_ex\<lparr>rho := 1 / 2\<rparr>) (a_ex 1)"
    using n_clonal_monotone_in_rho [OF le, of lic_ex dat_ex "a_ex 1"] f1 by (simp add: upd)
  have best: "\<forall>b. feasible lic_ex dat_ex (cfg_ex\<lparr>rho := 1 / 2\<rparr>) b \<longrightarrow> b n_clonal \<le> a_ex 1 n_clonal"
  proof (intro allI impI)
    fix b assume "feasible lic_ex dat_ex (cfg_ex\<lparr>rho := 1 / 2\<rparr>) b"
    from feasible_n_clonal_le [OF this] show "b n_clonal \<le> a_ex 1 n_clonal"
      by (simp add: Segments_ex)
  qed
  have "a_ex 0 n_clonal \<le> a_ex 1 n_clonal"
    using n_clonal_monotone_in_rho [OF le, of lic_ex dat_ex "a_ex 0" "a_ex 1"] f0 h1 best
    by (simp add: upd)
  with le f0 h0 h1 show ?thesis by blast
qed


text \<open>
  Claim C3 against the code. Lines 337 and 338 both call \<open>setObjectiveN\<close> with
  \<open>index=1\<close>, so the second call replaces the first: the model handed to the solver has
  two objectives, \<open>N clonal segs\<close> at priority 2 and \<open>MCN error\<close> at priority 1 with
  weight \<open>mcn_weight\<close>, and the TCN error is in neither. On the example, with
  \<open>mcn_weight = 1/2\<close>, the assignment \<open>a_tcn\<close> is admitted and optimal although the
  assignment \<open>a_ex 1\<close> has the same \<open>n_clonal\<close> and a strictly smaller weighted error sum
  \<open>(1 - mcn_weight) * tcn_error_clonal + mcn_weight * mcn_error_clonal\<close>.
\<close>

theorem tcn_error_left_out:
  "CNAlign_build lic_ex dat_ex cfg_ex = Inr m_ex \<and> mcn_weight cfg_ex = 1 / 2 \<and>
   map obj_name (objectives m_ex) = [''N clonal segs'', ''MCN error''] \<and>
   map obj_index (objectives m_ex) = [0, 1] \<and>
   map obj_priority (objectives m_ex) = [2, 1] \<and>
   blended m_ex 1 = (\<lambda>a. 1 / 2 * (- a mcn_error_clonal)) \<and>
   sat m_ex (a_ex 1) \<and> sat m_ex a_tcn \<and> optimal m_ex a_tcn \<and>
   a_tcn n_clonal = a_ex 1 n_clonal \<and>
   (1 - mcn_weight cfg_ex) * a_ex 1 tcn_error_clonal + mcn_weight cfg_ex * a_ex 1 mcn_error_clonal
     < (1 - mcn_weight cfg_ex) * a_tcn tcn_error_clonal + mcn_weight cfg_ex * a_tcn mcn_error_clonal"
proof -
  have w: "mcn_weight cfg_ex = 1 / 2" by (simp add: cfg_ex_def)
  have o: "map obj_name (objectives m_ex) = [''N clonal segs'', ''MCN error'']"
    "map obj_index (objectives m_ex) = [0, 1]" "map obj_priority (objectives m_ex) = [2, 1]"
    by (simp_all add: m_ex_def objectives_built)
  have bl: "blended m_ex 1 = (\<lambda>a. 1 / 2 * (- a mcn_error_clonal))"
    by (simp add: m_ex_def levels_built w)
  have opt: "optimal m_ex a_tcn"
  proof (rule optimal_in_ex)
    show "sat m_ex a_tcn" by (rule sat_tcn)
    show "a_tcn n_clonal = 1" by (simp add: a_tcn_def)
    show "a_tcn mcn_error_clonal = 0" by (simp add: a_tcn_def)
  qed
  have v: "a_tcn n_clonal = a_ex 1 n_clonal"
    "(1 - mcn_weight cfg_ex) * a_ex 1 tcn_error_clonal + mcn_weight cfg_ex * a_ex 1 mcn_error_clonal
     < (1 - mcn_weight cfg_ex) * a_tcn tcn_error_clonal + mcn_weight cfg_ex * a_tcn mcn_error_clonal"
    by (simp_all add: a_tcn_def w)
  from build_ex w o bl sat_ex(2) sat_tcn opt v show ?thesis by simp
qed

text \<open>
  Witness for C3: the optimality of \<open>a_tcn\<close> used at the admitted assignment \<open>a_ex 1\<close>,
  which has no TCN deviation and is not better for the built model.
\<close>

theorem tcn_error_left_out_witness:
  "sat m_ex (a_ex 1) \<and> sat m_ex a_tcn \<and> \<not> better m_ex (a_ex 1) a_tcn \<and>
   a_ex 1 n_clonal = 1 \<and> a_tcn n_clonal = 1 \<and>
   a_ex 1 tcn_error_clonal = 0 \<and> a_tcn tcn_error_clonal = 1 / 20 \<and>
   a_ex 1 mcn_error_clonal = 0 \<and> a_tcn mcn_error_clonal = 0"
proof -
  from tcn_error_left_out have s: "sat m_ex (a_ex 1)" "sat m_ex a_tcn" and o: "optimal m_ex a_tcn"
    by blast+
  from o s(1) have "\<not> better m_ex (a_ex 1) a_tcn" unfolding optimal_def by blast
  with s show ?thesis by (simp add: a_tcn_def)
qed




text \<open>
  Claim C8: for a built model the extractor returns, unless some pooled \<open>z\<close> is 0 (then
  \<open>1/v.Xn\<close> raises), one table with the column \<open>Variable\<close> and one column \<open>Solution_i\<close>
  per pooled solution, whose rows are, in this order: \<open>Obj1\<close> (each solution's
  \<open>n_clonal\<close>) and \<open>Obj2\<close> (recomputed per solution as
  \<open>-(1 - mcn_weight) * tcn_error_clonal - mcn_weight * mcn_error_clonal\<close> from that
  solution's own values), the ploidy \<open>pl\<close> of every sample, the purity of every sample
  as \<open>1 / z\<close>, \<open>allmatch\<close> of every segment, \<open>tcn\<close> of every cell and \<open>mcn\<close> of every
  cell. No pooled \<open>z\<close> is 0 when the pooled solutions are admitted by the model and the
  upper purity bound is positive. Every value is rounded to 6 decimal places: it is a
  multiple of \<open>10^-6\<close> at most \<open>0.5 * 10^-6\<close> from the unrounded value, the even multiple
  when two are equally near.
\<close>

theorem solution_table:
  assumes b: "CNAlign_build license dat0 cfg = Inr m"
  shows "ExtractSolutions m pool (mcn_weight cfg) =
     (if \<exists>sol\<in>set pool. \<exists>t\<in>set (unique (map sample dat0)). sol (z t) = 0
      then Inl ZeroDivisionError
      else
       Inr \<lparr>columns = ''Variable'' # map (\<lambda>i. ''Solution_'' @ str_nat (i + 1)) [0..<length pool],
          rows =
            [(''Obj1'', map (\<lambda>sol. round6 (sol n_clonal)) pool),
             (''Obj2'', map (\<lambda>sol. round6 (- (1 - mcn_weight cfg) * sol tcn_error_clonal
                                           - mcn_weight cfg * sol mcn_error_clonal)) pool)] @
            map (\<lambda>t. (VarName (pl t), map (\<lambda>sol. round6 (sol (pl t))) pool))
              (unique (map sample dat0)) @
            map (\<lambda>t. (replace_z (VarName (z t)), map (\<lambda>sol. round6 (1 / sol (z t))) pool))
              (unique (map sample dat0)) @
            map (\<lambda>s. (VarName (allmatch s), map (\<lambda>sol. round6 (sol (allmatch s))) pool))
              (unique (map segment dat0)) @
            map (\<lambda>(t, s). (VarName (tcn t s), map (\<lambda>sol. round6 (sol (tcn t s))) pool))
              (List.product (unique (map sample dat0)) (unique (map segment dat0))) @
            map (\<lambda>(t, s). (VarName (mcn t s), map (\<lambda>sol. round6 (sol (mcn t s))) pool))
              (List.product (unique (map sample dat0)) (unique (map segment dat0)))\<rparr>) \<and>
     ((\<forall>sol\<in>set pool. sat m sol) \<and> 0 < max_purity cfg \<longrightarrow>
        \<not> (\<exists>sol\<in>set pool. \<exists>t\<in>set (unique (map sample dat0)). sol (z t) = 0)) \<and>
     (\<forall>x. is_integral (round6 x * 10 ^ 6) \<and> \<bar>round6 x - x\<bar> \<le> 1 / (2 * 10 ^ 6)) \<and>
     (\<forall>k. round6 ((of_int k + 1 / 2) / 10 ^ 6) = of_int (if even k then k else k + 1) / 10 ^ 6)"
proof -
  let ?dat = "map recode_BAF dat0"
  let ?S = "unique (map sample dat0)" and ?G = "unique (map segment dat0)"
  let ?zero = "\<exists>sol\<in>set pool. \<exists>t\<in>set ?S. sol (z t) = 0"
  from build_Inr [OF b] have m: "m = built_model cfg ?dat ?S ?G" by simp
  have le: "list_ex (\<lambda>sol. list_ex (\<lambda>x. sol x = 0) (map z ?S)) pool = ?zero"
    by (auto simp: list_ex_iff)
  have tab: "ExtractSolutions m pool (mcn_weight cfg) =
     (if ?zero then Inl ZeroDivisionError
      else
       Inr \<lparr>columns = ''Variable'' # map (\<lambda>i. ''Solution_'' @ str_nat (i + 1)) [0..<length pool],
          rows =
            [(''Obj1'', map (\<lambda>sol. round6 (sol n_clonal)) pool),
             (''Obj2'', map (\<lambda>sol. round6 (- (1 - mcn_weight cfg) * sol tcn_error_clonal
                                           - mcn_weight cfg * sol mcn_error_clonal)) pool)] @
            map (\<lambda>t. (VarName (pl t), map (\<lambda>sol. round6 (sol (pl t))) pool)) ?S @
            map (\<lambda>t. (replace_z (VarName (z t)), map (\<lambda>sol. round6 (1 / sol (z t))) pool)) ?S @
            map (\<lambda>s. (VarName (allmatch s), map (\<lambda>sol. round6 (sol (allmatch s))) pool)) ?G @
            map (\<lambda>(t, s). (VarName (tcn t s), map (\<lambda>sol. round6 (sol (tcn t s))) pool))
              (List.product ?S ?G) @
            map (\<lambda>(t, s). (VarName (mcn t s), map (\<lambda>sol. round6 (sol (mcn t s))) pool))
              (List.product ?S ?G)\<rparr>)"
    unfolding m ExtractSolutions_def obj2_vals_built prefix_groups Let_def le
    by (simp add: value_rows_def comp_def split_def
        del: List.product.simps VarName.simps replace_z.simps)
  have adm: "\<not> ?zero" if h: "(\<forall>sol\<in>set pool. sat m sol) \<and> 0 < max_purity cfg"
  proof
    assume ?zero
    then obtain sol t where sol: "sol \<in> set pool" and t: "t \<in> set ?S" and z0: "sol (z t) = 0"
      by blast
    from h sol have "sat (built_model cfg ?dat ?S ?G) sol" by (simp add: m)
    from admitted_z_positive [OF this _ t] h have "0 < sol (z t)" by simp
    with z0 show False by simp
  qed
  have r: "\<forall>x. is_integral (round6 x * 10 ^ 6) \<and> \<bar>round6 x - x\<bar> \<le> 1 / (2 * 10 ^ 6)"
    using round6_grid round6_near by blast
  have tie: "\<forall>k. round6 ((of_int k + 1 / 2) / 10 ^ 6) =
      of_int (if even k then k else k + 1) / 10 ^ 6"
    using round6_tie by blast
  from tab adm r tie show ?thesis by blast
qed

text \<open>
  Witness for C8: the table of the example for a pool of two admitted solutions; the
  purity of sample A is the rounding of 1/3.
\<close>

theorem solution_table_witness:
  "CNAlign_build lic_ex dat_ex cfg_ex = Inr m_ex \<and>
   sat m_ex (a_ex 1) \<and> sat m_ex (a_ex 0) \<and> 0 < max_purity cfg_ex \<and>
   ExtractSolutions m_ex pool_ex (mcn_weight cfg_ex) =
     Inr \<lparr>columns = [''Variable'', ''Solution_1'', ''Solution_2''],
          rows = [(''Obj1'', [1, 0]), (''Obj2'', [0, 0]),
                  (''pl[A]'', [4, 4]), (''pl[B]'', [4, 4]),
                  (''pu[A]'', [333333 / 1000000, 333333 / 1000000]), (''pu[B]'', [1, 1]),
                  (''allmatch[s1]'', [1, 0]),
                  (''tcn[A,s1]'', [4, 4]), (''tcn[B,s1]'', [4, 4]),
                  (''mcn[A,s1]'', [0, 0]), (''mcn[B,s1]'', [0, 0])]\<rparr> \<and>
   round6 (1 / 3) = 333333 / 1000000"
proof -
  have p: "0 < max_purity cfg_ex" by (simp add: cfg_ex_def)
  have adm: "\<forall>sol\<in>set pool_ex. sat m_ex sol" by (simp add: pool_ex_def sat_ex)
  note st = solution_table [OF build_ex, of pool_ex]
  from st adm p have nz: "\<not> (\<exists>sol\<in>set pool_ex. \<exists>t\<in>set (unique (map sample dat_ex)). sol (z t) = 0)"
    by blast
  have cols: "map (\<lambda>i. ''Solution_'' @ str_nat (i + 1)) [0..<length pool_ex] =
      [''Solution_1'', ''Solution_2'']"
    by (simp add: pool_ex_def upt_rec)
  from st nz have "ExtractSolutions m_ex pool_ex (mcn_weight cfg_ex) =
     Inr \<lparr>columns = [''Variable'', ''Solution_1'', ''Solution_2''],
          rows = [(''Obj1'', [1, 0]), (''Obj2'', [0, 0]),
                  (''pl[A]'', [4, 4]), (''pl[B]'', [4, 4]),
                  (''pu[A]'', [333333 / 1000000, 333333 / 1000000]), (''pu[B]'', [1, 1]),
                  (''allmatch[s1]'', [1, 0]),
                  (''tcn[A,s1]'', [4, 4]), (''tcn[B,s1]'', [4, 4]),
                  (''mcn[A,s1]'', [0, 0]), (''mcn[B,s1]'', [0, 0])]\<rparr>"
    by (simp add: cols Samples_ex Segments_ex) (simp add: pool_ex_def round6_ex)
  with p show ?thesis by (simp add: build_ex sat_ex round6_ex)
qed

end
